theory Spec2Isabelle
  imports Main
begin

section \<open>JavaScript values\<close>

text \<open>
  The program is JavaScript: \<^verbatim>\<open>lib/rule.js\<close> (the \<^verbatim>\<open>Rule\<close> class) and the
  \<^verbatim>\<open>Middleware\<close> class whose code the chapter \<^verbatim>\<open>components/middleware.md\<close> gives.
  Messages and configuration objects are JSON data, so a value is \<^verbatim>\<open>undefined\<close>,
  \<^verbatim>\<open>null\<close>, a boolean, a string, an array or an object. An object is the list of its
  own enumerable properties in enumeration order; where a key repeats, the first
  binding is the property's value. Numbers are left out: no field the program reads is
  numeric (the timestamps of a \<^verbatim>\<open>reaction_added\<close> message are strings). The data
  holds no function: a property of an object is never something that can be called.
\<close>

datatype jsval =
    Undefined
  | Null
  | Bool bool
  | Str string
  | Arr "jsval list"
  | Obj "(string \<times> jsval) list"

type_synonym jsobj = "(string \<times> jsval) list"

text \<open>
  What a JavaScript expression can throw here: a \<^verbatim>\<open>TypeError\<close> of the language (a
  property read on \<^verbatim>\<open>undefined\<close> or \<^verbatim>\<open>null\<close>, a call of something that is not a
  function), or whatever an external collaborator throws.
\<close>

datatype error = TypeError | Thrown string

text \<open>\<^verbatim>\<open>obj[p]\<close> on an object: the own property, or \<^verbatim>\<open>undefined\<close>.\<close>

definition get :: "jsobj \<Rightarrow> string \<Rightarrow> jsval" where
  "get obj p = (case map_of obj p of Some v \<Rightarrow> v | None \<Rightarrow> Undefined)"

text \<open>
  \<^verbatim>\<open>v.p\<close> on any value, for the names the program reads (\<^verbatim>\<open>type\<close>, \<^verbatim>\<open>item\<close>,
  \<^verbatim>\<open>reaction\<close>, \<^verbatim>\<open>channel\<close>, \<^verbatim>\<open>ts\<close>, \<^verbatim>\<open>response\<close>, \<^verbatim>\<open>message\<close>,
  \<^verbatim>\<open>rawMessage\<close>): a \<^verbatim>\<open>TypeError\<close> on \<^verbatim>\<open>undefined\<close> and \<^verbatim>\<open>null\<close>,
  the own property of an object, and \<^verbatim>\<open>undefined\<close> on a boolean, a string or an array,
  whose prototypes have no member of these names.
\<close>

fun getprop :: "jsval \<Rightarrow> string \<Rightarrow> error + jsval" where
  "getprop Undefined p = Inl TypeError"
| "getprop Null p = Inl TypeError"
| "getprop (Obj fs) p = Inr (get fs p)"
| "getprop v p = Inr Undefined"

text \<open>
  \<^verbatim>\<open>a === b\<close>. Primitives are compared by value. Two arrays or objects are strictly
  equal only when they are the same object; the values compared below come from
  different places (the message, the rule, the resolver's answer), so they never are.
\<close>

fun strict_eq :: "jsval \<Rightarrow> jsval \<Rightarrow> bool" where
  "strict_eq Undefined Undefined = True"
| "strict_eq Null Null = True"
| "strict_eq (Bool a) (Bool b) = (a = b)"
| "strict_eq (Str a) (Str b) = (a = b)"
| "strict_eq a b = False"

text \<open>Truthiness, as \<^verbatim>\<open>if\<close> and \<^verbatim>\<open>&&\<close> test it.\<close>

fun truthy :: "jsval \<Rightarrow> bool" where
  "truthy Undefined = False"
| "truthy Null = False"
| "truthy (Bool b) = b"
| "truthy (Str s) = (s \<noteq> [])"
| "truthy v = True"

text \<open>\<^verbatim>\<open>Array.prototype.indexOf\<close>: the first index whose element is strictly equal, or -1.\<close>

fun array_indexOf :: "jsval list \<Rightarrow> jsval \<Rightarrow> int" where
  "array_indexOf [] x = -1"
| "array_indexOf (y # ys) x =
     (if strict_eq y x then 0
      else (let i = array_indexOf ys x in if i = -1 then -1 else i + 1))"

text \<open>
  \<^verbatim>\<open>String.prototype.indexOf\<close> converts its argument to a string and returns the first
  position where it occurs, or -1.
\<close>

fun join_comma :: "string list \<Rightarrow> string" where
  "join_comma [] = []"
| "join_comma [s] = s"
| "join_comma (s # ss) = s @ '','' @ join_comma ss"

fun ToString :: "jsval \<Rightarrow> string" where
  "ToString Undefined = ''undefined''"
| "ToString Null = ''null''"
| "ToString (Bool b) = (if b then ''true'' else ''false'')"
| "ToString (Str s) = s"
| "ToString (Arr xs) =
     join_comma (map (\<lambda>x. if x = Undefined \<or> x = Null then [] else ToString x) xs)"
| "ToString (Obj fs) = ''[object Object]''"

fun string_indexOf :: "string \<Rightarrow> string \<Rightarrow> int" where
  "string_indexOf [] needle = (if needle = [] then 0 else -1)"
| "string_indexOf (c # cs) needle =
     (if take (length needle) (c # cs) = needle then 0
      else (let i = string_indexOf cs needle in if i = -1 then -1 else i + 1))"

text \<open>
  The method call \<^verbatim>\<open>recv.indexOf(arg)\<close> with the argument already evaluated: arrays and
  strings have the method; on any other value \<^verbatim>\<open>recv.indexOf\<close> is not a function.
\<close>

fun call_indexOf :: "jsval \<Rightarrow> jsval \<Rightarrow> error + int" where
  "call_indexOf (Arr xs) x = Inr (array_indexOf xs x)"
| "call_indexOf (Str s) x = Inr (string_indexOf s (ToString x))"
| "call_indexOf v x = Inl TypeError"

section \<open>\<^verbatim>\<open>lib/rule.js\<close>\<close>

text \<open>
  The Slack client as \<^verbatim>\<open>Rule\<close> uses it: one method from a channel id to what the client
  has for it. It is an external collaborator, so the call may throw.
\<close>

record slack_client =
  getChannelByID :: "jsval \<Rightarrow> error + jsval"

text \<open>
  A \<^verbatim>\<open>Rule\<close> object is its own properties and its prototype. \<^verbatim>\<open>new Rule(...)\<close> makes it
  with the prototype \<^verbatim>\<open>Rule.prototype\<close>, which has the methods \<^verbatim>\<open>match\<close>,
  \<^verbatim>\<open>reactionMatches\<close> and \<^verbatim>\<open>channelMatches\<close>. An assignment to the property
  \<^verbatim>\<open>__proto__\<close> runs the setter of \<^verbatim>\<open>Object.prototype\<close>, which gives the object another
  prototype: an object or an array of the configuration's data, or \<^verbatim>\<open>null\<close>.
\<close>

datatype prototype = Rule_prototype | Other_prototype jsval

record rule_object =
  own :: jsobj
  proto :: prototype

definition hasOwnProperty :: "jsobj \<Rightarrow> string \<Rightarrow> bool" where
  "hasOwnProperty obj p = (p \<in> set (map fst obj))"

text \<open>
  The call \<^verbatim>\<open>obj.hasOwnProperty(p)\<close> on an object of the data: the method is the one of
  \<^verbatim>\<open>Object.prototype\<close>, unless the object has a property of that name, which is not a
  function.
\<close>

definition call_hasOwnProperty :: "jsobj \<Rightarrow> string \<Rightarrow> error + bool" where
  "call_hasOwnProperty obj p =
     (if hasOwnProperty obj ''hasOwnProperty'' then Inl TypeError
      else Inr (hasOwnProperty obj p))"

text \<open>
  \<^verbatim>\<open>this.p\<close> on a rule, for the names \<^verbatim>\<open>reactionName\<close> and \<^verbatim>\<open>channelNames\<close>, which no
  built-in prototype has: the own property, else the property of the prototype, else
  \<^verbatim>\<open>undefined\<close>.
\<close>

fun inherited :: "prototype \<Rightarrow> string \<Rightarrow> jsval" where
  "inherited (Other_prototype (Obj fs)) p = get fs p"
| "inherited other p = Undefined"

definition get_field :: "rule_object \<Rightarrow> string \<Rightarrow> jsval" where
  "get_field this p =
     (case map_of (own this) p of Some v \<Rightarrow> v | None \<Rightarrow> inherited (proto this) p)"

text \<open>
  Whether \<^verbatim>\<open>this.name\<close> is the method of \<^verbatim>\<open>Rule.prototype\<close>, for \<^verbatim>\<open>name\<close> one of
  \<^verbatim>\<open>match\<close>, \<^verbatim>\<open>reactionMatches\<close>, \<^verbatim>\<open>channelMatches\<close>: the prototype is still
  \<^verbatim>\<open>Rule.prototype\<close> and no own property of that name hides the method. The call
  \<^verbatim>\<open>this.name(...)\<close> runs the method then; otherwise what it finds is data or
  \<^verbatim>\<open>undefined\<close>, and calling it is a \<^verbatim>\<open>TypeError\<close>.
\<close>

definition has_method :: "rule_object \<Rightarrow> string \<Rightarrow> bool" where
  "has_method this name = (proto this = Rule_prototype \<and> \<not> hasOwnProperty (own this) name)"

definition call_method :: "rule_object \<Rightarrow> string \<Rightarrow> error + 'a \<Rightarrow> error + 'a" where
  "call_method this name result = (if has_method this name then result else Inl TypeError)"

text \<open>\<^verbatim>\<open>obj[p] = v\<close> on own properties: an existing property keeps its place, a new one goes
  last.\<close>

fun put :: "jsobj \<Rightarrow> string \<Rightarrow> jsval \<Rightarrow> jsobj" where
  "put [] p v = [(p, v)]"
| "put ((q, w) # obj) p v = (if q = p then (q, v) # obj else (q, w) # put obj p v)"

text \<open>
  \<^verbatim>\<open>this[p] = v\<close> on a rule. For \<^verbatim>\<open>p\<close> other than \<^verbatim>\<open>__proto__\<close> it sets the own
  property. For \<^verbatim>\<open>__proto__\<close> it runs the setter that the object inherits from
  \<^verbatim>\<open>Object.prototype\<close>: an object, an array or \<^verbatim>\<open>null\<close> becomes the prototype, any other
  value is ignored, and no own property is made. The setter is not what the assignment
  finds when the object has an own property \<^verbatim>\<open>__proto__\<close>, when its prototype is
  \<^verbatim>\<open>null\<close>, or when its prototype is an object of the data with a property of that name;
  then the own property is set.
\<close>

fun inherits_proto_setter :: "prototype \<Rightarrow> bool" where
  "inherits_proto_setter Rule_prototype = True"
| "inherits_proto_setter (Other_prototype (Obj fs)) = (\<not> hasOwnProperty fs ''__proto__'')"
| "inherits_proto_setter (Other_prototype (Arr xs)) = True"
| "inherits_proto_setter (Other_prototype v) = False"

fun object_or_null :: "jsval \<Rightarrow> bool" where
  "object_or_null (Obj fs) = True"
| "object_or_null (Arr xs) = True"
| "object_or_null Null = True"
| "object_or_null v = False"

definition assign :: "rule_object \<Rightarrow> string \<Rightarrow> jsval \<Rightarrow> rule_object" where
  "assign this p v =
     (if p = ''__proto__'' \<and> \<not> hasOwnProperty (own this) p \<and> inherits_proto_setter (proto this)
      then (if object_or_null v then this\<lparr> proto := Other_prototype v \<rparr> else this)
      else this\<lparr> own := put (own this) p v \<rparr>)"

text \<open>
  \<^verbatim>\<open>for (var property in obj)\<close> visits each property name once. A configuration object
  inherits no enumerable property, so the names are the own ones. (Names that are array
  indices would come first; the order plays no part below.)
\<close>

fun enumerable_keys :: "jsobj \<Rightarrow> string list" where
  "enumerable_keys [] = []"
| "enumerable_keys ((p, v) # obj) = p # filter (\<lambda>q. q \<noteq> p) (enumerable_keys obj)"

text \<open>
  The constructor: each turn of the loop calls \<^verbatim>\<open>configRule.hasOwnProperty(property)\<close>
  and assigns \<^verbatim>\<open>this[property] = configRule[property]\<close>. \<^verbatim>\<open>this\<close> is the state of the
  loop, and an exception ends it.
\<close>

fun Rule_loop :: "jsobj \<Rightarrow> string list \<Rightarrow> rule_object \<Rightarrow> error + rule_object" where
  "Rule_loop configRule [] this = Inr this"
| "Rule_loop configRule (property # ps) this =
     (case call_hasOwnProperty configRule property of
        Inl e \<Rightarrow> Inl e
      | Inr True \<Rightarrow>
          Rule_loop configRule ps (assign this property (get configRule property))
      | Inr False \<Rightarrow> Rule_loop configRule ps this)"

definition Rule :: "jsobj \<Rightarrow> error + rule_object" where
  "Rule configRule =
     Rule_loop configRule (enumerable_keys configRule) \<lparr> own = [], proto = Rule_prototype \<rparr>"

definition reactionMatches :: "rule_object \<Rightarrow> jsval \<Rightarrow> error + bool" where
  "reactionMatches this message =
     (case getprop message ''reaction'' of
        Inl e \<Rightarrow> Inl e
      | Inr reaction \<Rightarrow> Inr (strict_eq reaction (get_field this ''reactionName'')))"

text \<open>
  \<^verbatim>\<open>channels === undefined || channels.indexOf(slackClient.getChannelByID(message.item.channel)) !== -1\<close>.
  The order of evaluation is the language's: \<^verbatim>\<open>channels.indexOf\<close> is read first (a
  \<^verbatim>\<open>TypeError\<close> when \<^verbatim>\<open>channels\<close> is \<^verbatim>\<open>null\<close>), then the argument is evaluated,
  then the method is called.
\<close>

definition channelMatches :: "rule_object \<Rightarrow> jsval \<Rightarrow> slack_client \<Rightarrow> error + bool" where
  "channelMatches this message slackClient =
     (let channels = get_field this ''channelNames'' in
      if channels = Undefined then Inr True
      else if channels = Null then Inl TypeError
      else
        (case getprop message ''item'' of
           Inl e \<Rightarrow> Inl e
         | Inr item \<Rightarrow>
             (case getprop item ''channel'' of
                Inl e \<Rightarrow> Inl e
              | Inr channel \<Rightarrow>
                  (case getChannelByID slackClient channel of
                     Inl e \<Rightarrow> Inl e
                   | Inr name \<Rightarrow>
                       (case call_indexOf channels name of
                          Inl e \<Rightarrow> Inl e
                        | Inr i \<Rightarrow> Inr (i \<noteq> -1))))))"

text \<open>
  \<^verbatim>\<open>this.reactionMatches(message) && this.channelMatches(message, slackClient)\<close>: both are
  method calls on \<^verbatim>\<open>this\<close>, and \<^verbatim>\<open>&&\<close> evaluates its right operand only when the left
  one is true.
\<close>

definition match :: "rule_object \<Rightarrow> jsval \<Rightarrow> slack_client \<Rightarrow> error + bool" where
  "match this message slackClient =
     (case call_method this ''reactionMatches'' (reactionMatches this message) of
        Inl e \<Rightarrow> Inl e
      | Inr False \<Rightarrow> Inr False
      | Inr True \<Rightarrow>
          call_method this ''channelMatches'' (channelMatches this message slackClient))"

section \<open>The \<^verbatim>\<open>Middleware\<close> class\<close>

record config =
  config_rules :: "jsobj list"
  config_successReaction :: string

record 'g middleware =
  rules :: "rule_object list"
  successReaction :: string
  slackClient :: slack_client
  githubClient :: 'g

text \<open>
  \<^verbatim>\<open>Array.prototype.map\<close> with a callback that may throw: an exception ends the mapping.
\<close>

fun array_map :: "('a \<Rightarrow> error + 'b) \<Rightarrow> 'a list \<Rightarrow> error + 'b list" where
  "array_map f [] = Inr []"
| "array_map f (x # xs) =
     (case f x of
        Inl e \<Rightarrow> Inl e
      | Inr y \<Rightarrow> (case array_map f xs of Inl e \<Rightarrow> Inl e | Inr ys \<Rightarrow> Inr (y # ys)))"

text \<open>
  The constructor, with the rules promoted to \<^verbatim>\<open>Rule\<close> objects:
  \<^verbatim>\<open>this.rules = config.rules.map(function(rule) { return new Rule(rule); })\<close>.
\<close>

definition Middleware :: "config \<Rightarrow> slack_client \<Rightarrow> 'g \<Rightarrow> error + 'g middleware" where
  "Middleware cfg slack github =
     (case array_map Rule (config_rules cfg) of
        Inl e \<Rightarrow> Inl e
      | Inr rs \<Rightarrow>
          Inr \<lparr> rules = rs,
                successReaction = config_successReaction cfg,
                slackClient = slack,
                githubClient = github \<rparr>)"

text \<open>\<^verbatim>\<open>SlackClient.REACTION_ADDED = 'reaction_added'\<close>\<close>

definition REACTION_ADDED :: string where
  "REACTION_ADDED = ''reaction_added''"

text \<open>
  \<^verbatim>\<open>Array.prototype.find\<close>: the first element for which the callback returns true, or
  \<^verbatim>\<open>undefined\<close> (here \<open>None\<close>); an exception of the callback ends the search.
\<close>

fun array_find :: "('a \<Rightarrow> error + bool) \<Rightarrow> 'a list \<Rightarrow> error + 'a option" where
  "array_find f [] = Inr None"
| "array_find f (x # xs) =
     (case f x of
        Inl e \<Rightarrow> Inl e
      | Inr True \<Rightarrow> Inr (Some x)
      | Inr False \<Rightarrow> array_find f xs)"

text \<open>
  The condition \<^verbatim>\<open>message && message.type === SlackClient.REACTION_ADDED &&
  message.item.type === 'message'\<close>, evaluated left to right. Reading \<^verbatim>\<open>message.type\<close> and
  \<^verbatim>\<open>message.item\<close> cannot fail once \<^verbatim>\<open>message\<close> is truthy; reading \<^verbatim>\<open>.type\<close> of
  \<^verbatim>\<open>message.item\<close> is a \<^verbatim>\<open>TypeError\<close> when the message has no item.
\<close>

definition handled_message :: "jsval \<Rightarrow> error + bool" where
  "handled_message message =
     (if \<not> truthy message then Inr False
      else
        (case getprop message ''type'' of
           Inl e \<Rightarrow> Inl e
         | Inr ty \<Rightarrow>
             if \<not> strict_eq ty (Str REACTION_ADDED) then Inr False
             else
               (case getprop message ''item'' of
                  Inl e \<Rightarrow> Inl e
                | Inr item \<Rightarrow>
                    (case getprop item ''type'' of
                       Inl e \<Rightarrow> Inl e
                     | Inr ity \<Rightarrow> Inr (strict_eq ity (Str ''message''))))))"

text \<open>
  The callback of \<^verbatim>\<open>find\<close> is the method call \<^verbatim>\<open>rule.match(message, slackClient)\<close>. A
  function that falls off its end returns \<^verbatim>\<open>undefined\<close>: \<open>None\<close>.
\<close>

definition findMatchingRule :: "'g middleware \<Rightarrow> jsval \<Rightarrow> error + rule_object option" where
  "findMatchingRule this message =
     (case handled_message message of
        Inl e \<Rightarrow> Inl e
      | Inr False \<Rightarrow> Inr None
      | Inr True \<Rightarrow>
          array_find
            (\<lambda>rule. call_method rule ''match'' (match rule message (slackClient this)))
            (rules this))"


section \<open>\<^verbatim>\<open>execute\<close>\<close>

text \<open>
  The chapter gives the head of \<^verbatim>\<open>Middleware.prototype.execute\<close> only: it unpacks the
  message from the Hubot context,
  \<^verbatim>\<open>var response = context.response, message = response.message.rawMessage;\<close>
\<close>

definition rawMessage :: "jsval \<Rightarrow> error + jsval" where
  "rawMessage context =
     (case getprop context ''response'' of
        Inl e \<Rightarrow> Inl e
      | Inr response \<Rightarrow>
          (case getprop response ''message'' of
             Inl e \<Rightarrow> Inl e
           | Inr message \<Rightarrow> getprop message ''rawMessage''))"

text \<open>
  Modelled from the spec: the collaborators that \<^verbatim>\<open>execute\<close> calls, whose clients are not
  among the sources. Section 6 of the specification gives their interfaces:
  \<^verbatim>\<open>getReactions(channel, ts)\<close> returns the reaction names of a message,
  \<^verbatim>\<open>addReaction(name, channel, ts)\<close> and \<^verbatim>\<open>postMessage(channel, text)\<close> succeed or fail,
  and \<^verbatim>\<open>fileIssue(title, description, metadata)\<close> returns the link of the issue or fails.
  The specification does not say how title, description and metadata are made; they are
  determined by the rule and the event, which the model hands to \<^verbatim>\<open>fileIssue\<close>.
\<close>

record collaborators =
  getReactions :: "jsval \<Rightarrow> jsval \<Rightarrow> error + string list"
  fileIssue :: "rule_object \<Rightarrow> jsval \<Rightarrow> error + string"
  addReaction :: "string \<Rightarrow> jsval \<Rightarrow> jsval \<Rightarrow> error + unit"
  postMessage :: "jsval \<Rightarrow> string \<Rightarrow> error + unit"

text \<open>The calls made to the collaborators, in the order they are made.\<close>

datatype call =
    GetReactions jsval jsval
  | FileIssue rule_object jsval
  | AddReaction string jsval jsval
  | PostMessage jsval string

text \<open>
  Modelled from the spec: the body of \<^verbatim>\<open>Middleware.prototype.execute\<close>, which is not among
  the sources. It follows the seven steps of section 4.2 of the specification: resolve the
  matching rule (none: not handled, nothing further); query the reactions of the message,
  identified by channel and timestamp; if the success reaction is among them, signal handled
  and add nothing; otherwise file the issue, add the success reaction, post the link in
  the channel, and signal handled. A failure of a collaborator aborts the remaining steps
  and is surfaced. The result is what \<^verbatim>\<open>execute\<close> signals (handled or not, or the
  failure) with the calls it made.
\<close>

definition execute_event ::
  "'g middleware \<Rightarrow> collaborators \<Rightarrow> jsval \<Rightarrow> (error + bool) \<times> call list" where
  "execute_event this ext event =
     (case findMatchingRule this event of
        Inl e \<Rightarrow> (Inl e, [])
      | Inr None \<Rightarrow> (Inr False, [])
      | Inr (Some rule) \<Rightarrow>
          (case getprop event ''item'' of
             Inl e \<Rightarrow> (Inl e, [])
           | Inr item \<Rightarrow>
          (case getprop item ''channel'' of
             Inl e \<Rightarrow> (Inl e, [])
           | Inr channel \<Rightarrow>
          (case getprop item ''ts'' of
             Inl e \<Rightarrow> (Inl e, [])
           | Inr ts \<Rightarrow>
          (case getReactions ext channel ts of
             Inl e \<Rightarrow> (Inl e, [GetReactions channel ts])
           | Inr reactions \<Rightarrow>
               if successReaction this \<in> set reactions
               then (Inr True, [GetReactions channel ts])
               else
          (case fileIssue ext rule event of
             Inl e \<Rightarrow> (Inl e, [GetReactions channel ts, FileIssue rule event])
           | Inr link \<Rightarrow>
          (case addReaction ext (successReaction this) channel ts of
             Inl e \<Rightarrow>
               (Inl e, [GetReactions channel ts, FileIssue rule event,
                        AddReaction (successReaction this) channel ts])
           | Inr u \<Rightarrow>
          (case postMessage ext channel link of
             Inl e \<Rightarrow>
               (Inl e, [GetReactions channel ts, FileIssue rule event,
                        AddReaction (successReaction this) channel ts,
                        PostMessage channel link])
           | Inr u \<Rightarrow>
               (Inr True, [GetReactions channel ts, FileIssue rule event,
                           AddReaction (successReaction this) channel ts,
                           PostMessage channel link])))))))))"

definition execute ::
  "'g middleware \<Rightarrow> collaborators \<Rightarrow> jsval \<Rightarrow> (error + bool) \<times> call list" where
  "execute this ext context =
     (case rawMessage context of
        Inl e \<Rightarrow> (Inl e, [])
      | Inr message \<Rightarrow> execute_event this ext message)"

text \<open>What a collaborator answers to a call: the failure, if it fails.\<close>

fun failure_of :: "collaborators \<Rightarrow> call \<Rightarrow> error option" where
  "failure_of ext (GetReactions channel ts) =
     (case getReactions ext channel ts of Inl e \<Rightarrow> Some e | Inr r \<Rightarrow> None)"
| "failure_of ext (FileIssue rule event) =
     (case fileIssue ext rule event of Inl e \<Rightarrow> Some e | Inr r \<Rightarrow> None)"
| "failure_of ext (AddReaction name channel ts) =
     (case addReaction ext name channel ts of Inl e \<Rightarrow> Some e | Inr r \<Rightarrow> None)"
| "failure_of ext (PostMessage channel text) =
     (case postMessage ext channel text of Inl e \<Rightarrow> Some e | Inr r \<Rightarrow> None)"

text \<open>
  A sequence of calls stops at its first failure, and that failure is the result: the
  failed call is the last one.
\<close>

fun stops_at_failure :: "collaborators \<Rightarrow> call list \<Rightarrow> error + bool \<Rightarrow> bool" where
  "stops_at_failure ext [] result = True"
| "stops_at_failure ext (c # cs) result =
     (case failure_of ext c of
        Some e \<Rightarrow> cs = [] \<and> result = Inl e
      | None \<Rightarrow> stops_at_failure ext cs result)"

section \<open>The objects in a store\<close>

text \<open>
  JavaScript hands objects to a method by reference: \<^verbatim>\<open>this\<close>, the message and the
  array \<^verbatim>\<open>this.rules\<close> are shared with the caller, and an assignment to a property in
  the method's body would be seen by the caller afterwards. To speak of what a method
  leaves unchanged, the methods are written here a second time as the statements they are,
  over a store: it holds the value of every object by reference, and the references of the
  rules of the middleware in the order of \<^verbatim>\<open>this.rules\<close>. A statement takes the store and
  returns its result, or what it throws, with the store it leaves. A reference may hold
  a value that is no object, as the reference of a message that is \<^verbatim>\<open>null\<close> does.
  The channel resolver is handed a channel id and no object of the store.
  A method call is taken to reach the method of \<^verbatim>\<open>Rule.prototype\<close>, whose statements are
  written out; where a field of the rule hides the method, the call throws before any
  statement of the body runs.
\<close>

type_synonym ref = nat

record store =
  objects :: "ref \<Rightarrow> jsval"
  rule_array :: "ref list"

type_synonym 'a js = "store \<Rightarrow> (error + 'a) \<times> store"

definition return_js :: "'a \<Rightarrow> 'a js" where
  "return_js x = (\<lambda>s. (Inr x, s))"

definition throw_js :: "error \<Rightarrow> 'a js" where
  "throw_js e = (\<lambda>s. (Inl e, s))"

text \<open>The value of an expression that touches no object: it throws or returns.\<close>

definition lift_js :: "error + 'a \<Rightarrow> 'a js" where
  "lift_js r = (\<lambda>s. (r, s))"

text \<open>One statement after another; an exception skips what follows.\<close>

definition bind_js :: "'a js \<Rightarrow> ('a \<Rightarrow> 'b js) \<Rightarrow> 'b js" where
  "bind_js m f =
     (\<lambda>s. case m s of (Inl e, s') \<Rightarrow> (Inl e, s') | (Inr x, s') \<Rightarrow> f x s')"

text \<open>\<^verbatim>\<open>r.p\<close> for an object reference \<^verbatim>\<open>r\<close>.\<close>

definition read_prop :: "ref \<Rightarrow> string \<Rightarrow> jsval js" where
  "read_prop r p = (\<lambda>s. (getprop (objects s r) p, s))"

text \<open>
  \<^verbatim>\<open>r[p] = v\<close>: the one statement that changes the store. The code is in strict mode, where
  an assignment to a property of anything but an object throws.
\<close>

definition write_prop :: "ref \<Rightarrow> string \<Rightarrow> jsval \<Rightarrow> unit js" where
  "write_prop r p v =
     (\<lambda>s. case objects s r of
             Obj fs \<Rightarrow> (Inr (), s\<lparr> objects := (objects s)(r := Obj (put fs p v)) \<rparr>)
           | other \<Rightarrow> (Inl TypeError, s))"

text \<open>\<^verbatim>\<open>this.rules\<close>\<close>

definition read_rules :: "ref list js" where
  "read_rules = (\<lambda>s. (Inr (rule_array s), s))"

text \<open>
  The constructor writes to \<^verbatim>\<open>this\<close>. The configuration object is JSON data that the
  constructor only reads; it is given by its value. \<^verbatim>\<open>new Rule(configRule)\<close> makes the
  empty object at a reference and runs the constructor on it.
\<close>

fun Rule_loop_st :: "ref \<Rightarrow> jsobj \<Rightarrow> string list \<Rightarrow> unit js" where
  "Rule_loop_st this configRule [] s = (Inr (), s)"
| "Rule_loop_st this configRule (property # ps) s =
     (if hasOwnProperty configRule property
      then
        (case write_prop this property (get configRule property) s of
           (Inl e, s') \<Rightarrow> (Inl e, s')
         | (Inr u, s') \<Rightarrow> Rule_loop_st this configRule ps s')
      else Rule_loop_st this configRule ps s)"

definition Rule_st :: "ref \<Rightarrow> jsobj \<Rightarrow> unit js" where
  "Rule_st this configRule = Rule_loop_st this configRule (enumerable_keys configRule)"

definition new_Rule :: "ref \<Rightarrow> jsobj \<Rightarrow> unit js" where
  "new_Rule r configRule =
     (\<lambda>s. Rule_st r configRule (s\<lparr> objects := (objects s)(r := Obj []) \<rparr>))"

definition reactionMatches_st :: "ref \<Rightarrow> ref \<Rightarrow> bool js" where
  "reactionMatches_st this message =
     bind_js (read_prop message ''reaction'') (\<lambda>reaction.
     bind_js (read_prop this ''reactionName'') (\<lambda>reactionName.
     return_js (strict_eq reaction reactionName)))"

definition channelMatches_st :: "ref \<Rightarrow> ref \<Rightarrow> slack_client \<Rightarrow> bool js" where
  "channelMatches_st this message client =
     bind_js (read_prop this ''channelNames'') (\<lambda>channels.
       if channels = Undefined then return_js True
       else if channels = Null then throw_js TypeError
       else
         bind_js (read_prop message ''item'') (\<lambda>item.
         bind_js (lift_js (getprop item ''channel'')) (\<lambda>channel.
         bind_js (lift_js (getChannelByID client channel)) (\<lambda>name.
         bind_js (lift_js (call_indexOf channels name)) (\<lambda>i.
         return_js (i \<noteq> - 1))))))"

definition match_st :: "ref \<Rightarrow> ref \<Rightarrow> slack_client \<Rightarrow> bool js" where
  "match_st this message client =
     bind_js (reactionMatches_st this message) (\<lambda>matches.
       if matches then channelMatches_st this message client else return_js False)"

fun array_find_st :: "(ref \<Rightarrow> bool js) \<Rightarrow> ref list \<Rightarrow> ref option js" where
  "array_find_st f [] s = (Inr None, s)"
| "array_find_st f (x # xs) s =
     (case f x s of
        (Inl e, s') \<Rightarrow> (Inl e, s')
      | (Inr True, s') \<Rightarrow> (Inr (Some x), s')
      | (Inr False, s') \<Rightarrow> array_find_st f xs s')"

definition handled_message_st :: "ref \<Rightarrow> bool js" where
  "handled_message_st message =
     (\<lambda>s. if \<not> truthy (objects s message) then (Inr False, s)
          else
            bind_js (read_prop message ''type'') (\<lambda>ty.
              if \<not> strict_eq ty (Str REACTION_ADDED) then return_js False
              else
                bind_js (read_prop message ''item'') (\<lambda>item.
                bind_js (lift_js (getprop item ''type'')) (\<lambda>ity.
                return_js (strict_eq ity (Str ''message''))))) s)"

definition findMatchingRule_st :: "slack_client \<Rightarrow> ref \<Rightarrow> ref option js" where
  "findMatchingRule_st client message =
     bind_js (handled_message_st message) (\<lambda>handled.
       if handled
       then bind_js read_rules (array_find_st (\<lambda>rule. match_st rule message client))
       else return_js None)"

text \<open>The own properties of the object a reference holds.\<close>

fun fields :: "jsval \<Rightarrow> jsobj" where
  "fields (Obj fs) = fs"
| "fields v = []"

text \<open>The rule object, as the constructor makes it, that a reference holds.\<close>

definition rule_at :: "store \<Rightarrow> ref \<Rightarrow> rule_object" where
  "rule_at s r = \<lparr> own = fields (objects s r), proto = Rule_prototype \<rparr>"

text \<open>A statement that leaves every store as it found it.\<close>

definition preserves_store :: "'a js \<Rightarrow> bool" where
  "preserves_store m = (\<forall>s. snd (m s) = s)"


section \<open>Test data\<close>

text \<open>
  The message of the chapter's test helper \<^verbatim>\<open>reactionAddedMessage\<close>, with the channel id
  and the timestamp of the sample message of the chapter, and rules as a configuration
  gives them.
\<close>

definition REACTION :: string where
  "REACTION = ''evergreen_tree''"

definition USER_ID :: string where
  "USER_ID = ''U5150OU812''"

definition CHANNEL_ID :: string where
  "CHANNEL_ID = ''C2147483705''"

definition TIMESTAMP :: string where
  "TIMESTAMP = ''1360782804.083113''"

definition reactionAddedMessage :: jsval where
  "reactionAddedMessage =
     Obj [(''type'', Str REACTION_ADDED),
          (''user'', Str USER_ID),
          (''item'', Obj [(''type'', Str ''message''),
                          (''channel'', Str CHANNEL_ID),
                          (''ts'', Str TIMESTAMP)]),
          (''reaction'', Str REACTION),
          (''event_ts'', Str TIMESTAMP)]"

text \<open>The same reaction, added to a file instead of a message.\<close>

definition fileReactionMessage :: jsval where
  "fileReactionMessage =
     Obj [(''type'', Str REACTION_ADDED),
          (''user'', Str USER_ID),
          (''item'', Obj [(''type'', Str ''file''),
                          (''channel'', Str CHANNEL_ID),
                          (''ts'', Str TIMESTAMP)]),
          (''reaction'', Str REACTION),
          (''event_ts'', Str TIMESTAMP)]"

text \<open>A \<^verbatim>\<open>reaction_added\<close> message with no \<^verbatim>\<open>item\<close>, and one whose \<^verbatim>\<open>item\<close> is
  \<^verbatim>\<open>null\<close>.\<close>

definition itemlessMessage :: jsval where
  "itemlessMessage =
     Obj [(''type'', Str REACTION_ADDED),
          (''user'', Str USER_ID),
          (''reaction'', Str REACTION),
          (''event_ts'', Str TIMESTAMP)]"

definition nullItemMessage :: jsval where
  "nullItemMessage =
     Obj [(''type'', Str REACTION_ADDED),
          (''user'', Str USER_ID),
          (''item'', Null),
          (''reaction'', Str REACTION),
          (''event_ts'', Str TIMESTAMP)]"

text \<open>A message whose item has a type and nothing else, and that names no user.\<close>

definition bareMessage :: jsval where
  "bareMessage =
     Obj [(''type'', Str REACTION_ADDED),
          (''item'', Obj [(''type'', Str ''message'')]),
          (''reaction'', Str REACTION)]"

text \<open>The sample message without its \<^verbatim>\<open>reaction\<close>.\<close>

definition reactionlessMessage :: jsval where
  "reactionlessMessage =
     Obj [(''type'', Str REACTION_ADDED),
          (''user'', Str USER_ID),
          (''item'', Obj [(''type'', Str ''message''),
                          (''channel'', Str CHANNEL_ID),
                          (''ts'', Str TIMESTAMP)]),
          (''event_ts'', Str TIMESTAMP)]"

definition config_general :: jsobj where
  "config_general =
     [(''reactionName'', Str REACTION),
      (''githubRepository'', Str ''handbook''),
      (''channelNames'', Arr [Str ''general''])]"

definition config_any :: jsobj where
  "config_any =
     [(''reactionName'', Str REACTION),
      (''githubRepository'', Str ''hub'')]"

definition config_late :: jsobj where
  "config_late =
     [(''reactionName'', Str REACTION),
      (''githubRepository'', Str ''guides'')]"

definition baseConfig :: config where
  "baseConfig =
     \<lparr> config_rules = [config_general, config_any, config_late],
       config_successReaction = ''heavy_check_mark'' \<rparr>"

text \<open>The rules the constructor makes of these configurations.\<close>

definition rule_general :: rule_object where
  "rule_general = \<lparr> own = config_general, proto = Rule_prototype \<rparr>"

definition rule_any :: rule_object where
  "rule_any = \<lparr> own = config_any, proto = Rule_prototype \<rparr>"

definition rule_late :: rule_object where
  "rule_late = \<lparr> own = config_late, proto = Rule_prototype \<rparr>"

text \<open>
  Rules of configurations with one more field, whose name is the name of a method of
  \<^verbatim>\<open>Rule.prototype\<close>: the constructor copies the field, and it hides the method.
\<close>

definition config_field_match :: jsobj where
  "config_field_match =
     [(''reactionName'', Str REACTION),
      (''githubRepository'', Str ''hub''),
      (''match'', Str ''exact'')]"

definition rule_field_match :: rule_object where
  "rule_field_match = \<lparr> own = config_field_match, proto = Rule_prototype \<rparr>"

definition rule_field_reactionMatches :: rule_object where
  "rule_field_reactionMatches =
     \<lparr> own = [(''reactionName'', Str REACTION),
              (''githubRepository'', Str ''hub''),
              (''reactionMatches'', Bool True)],
       proto = Rule_prototype \<rparr>"

definition rule_field_channelMatches :: rule_object where
  "rule_field_channelMatches =
     \<lparr> own = [(''reactionName'', Str REACTION),
              (''githubRepository'', Str ''hub''),
              (''channelMatches'', Bool True)],
       proto = Rule_prototype \<rparr>"

text \<open>The rule for the channel \<^verbatim>\<open>general\<close> with a field \<^verbatim>\<open>reactionMatches\<close>, and with a
  field \<^verbatim>\<open>channelMatches\<close>.\<close>

definition rule_general_field_reactionMatches :: rule_object where
  "rule_general_field_reactionMatches =
     \<lparr> own = [(''reactionName'', Str REACTION),
              (''channelNames'', Arr [Str ''general'']),
              (''reactionMatches'', Bool True)],
       proto = Rule_prototype \<rparr>"

definition rule_general_field_channelMatches :: rule_object where
  "rule_general_field_channelMatches =
     \<lparr> own = [(''reactionName'', Str REACTION),
              (''channelNames'', Arr [Str ''general'']),
              (''channelMatches'', Bool True)],
       proto = Rule_prototype \<rparr>"

text \<open>
  Rules of configurations with a key \<^verbatim>\<open>__proto__\<close>: its value has become the prototype
  of the rule, which has lost the methods of \<^verbatim>\<open>Rule.prototype\<close>. The second rule inherits
  its \<^verbatim>\<open>channelNames\<close> from the new prototype.
\<close>

definition config_null_prototype :: jsobj where
  "config_null_prototype =
     [(''reactionName'', Str REACTION),
      (''__proto__'', Null)]"

definition rule_null_prototype :: rule_object where
  "rule_null_prototype =
     \<lparr> own = [(''reactionName'', Str REACTION)], proto = Other_prototype Null \<rparr>"

definition config_general_prototype :: jsobj where
  "config_general_prototype =
     [(''reactionName'', Str REACTION),
      (''__proto__'', Obj [(''channelNames'', Arr [Str ''general''])])]"

definition rule_general_prototype :: rule_object where
  "rule_general_prototype =
     \<lparr> own = [(''reactionName'', Str REACTION)],
       proto = Other_prototype (Obj [(''channelNames'', Arr [Str ''general''])]) \<rparr>"

text \<open>A rule whose \<^verbatim>\<open>channelNames\<close> is \<^verbatim>\<open>null\<close>, and a rule with no \<^verbatim>\<open>reactionName\<close>:
  neither is a rule of the data model.\<close>

definition rule_null_channels :: rule_object where
  "rule_null_channels =
     \<lparr> own = [(''reactionName'', Str REACTION), (''channelNames'', Null)],
       proto = Rule_prototype \<rparr>"

definition rule_nameless :: rule_object where
  "rule_nameless = \<lparr> own = [(''githubRepository'', Str ''hub'')], proto = Rule_prototype \<rparr>"

text \<open>A client that knows every channel as \<^verbatim>\<open>random\<close>, one that knows every channel as
  \<^verbatim>\<open>general\<close>, one that knows no channel, and one whose every call throws.\<close>

definition client_random :: slack_client where
  "client_random = \<lparr> getChannelByID = (\<lambda>channel. Inr (Str ''random'')) \<rparr>"

definition client_general :: slack_client where
  "client_general = \<lparr> getChannelByID = (\<lambda>channel. Inr (Str ''general'')) \<rparr>"

definition client_unknown :: slack_client where
  "client_unknown = \<lparr> getChannelByID = (\<lambda>channel. Inr Undefined) \<rparr>"

definition client_failing :: slack_client where
  "client_failing = \<lparr> getChannelByID = (\<lambda>channel. Inl (Thrown ''not connected'')) \<rparr>"

definition middleware_of :: "rule_object list \<Rightarrow> slack_client \<Rightarrow> unit middleware" where
  "middleware_of rs client =
     \<lparr> rules = rs, successReaction = ''heavy_check_mark'',
       slackClient = client, githubClient = () \<rparr>"

text \<open>The Hubot context that carries a message, and collaborators for \<^verbatim>\<open>execute\<close>: the
  message has the reactions \<open>present\<close>, and filing an issue fails when \<open>github_up\<close> is
  false.\<close>

definition context_of :: "jsval \<Rightarrow> jsval" where
  "context_of message =
     Obj [(''response'', Obj [(''message'', Obj [(''rawMessage'', message)])])]"

definition collaborators_of :: "string list \<Rightarrow> bool \<Rightarrow> collaborators" where
  "collaborators_of present github_up =
     \<lparr> getReactions = (\<lambda>channel ts. Inr present),
       fileIssue = (\<lambda>rule event.
          if github_up then Inr ''https://github.com/18F/hub/issues/1''
          else Inl (Thrown ''github: 500'')),
       addReaction = (\<lambda>name channel ts. Inr ()),
       postMessage = (\<lambda>channel text. Inr ()) \<rparr>"

text \<open>A store with the message at reference 0 and two rules, made by the constructor, at
  references 1 and 2.\<close>

definition example_store :: store where
  "example_store =
     \<lparr> objects = (\<lambda>r. Undefined)
         (0 := reactionAddedMessage, 1 := Obj config_general, 2 := Obj config_any),
       rule_array = [1, 2] \<rparr>"

section \<open>The data model of the specification\<close>

text \<open>
  A rule as the data model of the specification (section 3) has it, and as the
  configuration is validated to give it: \<^verbatim>\<open>reactionName\<close> is a string, and
  \<^verbatim>\<open>channelNames\<close> is unset or a list of strings. The data model lets a rule have any
  further field.
\<close>

fun is_Str :: "jsval \<Rightarrow> bool" where
  "is_Str (Str s) = True"
| "is_Str v = False"

definition valid_rule :: "rule_object \<Rightarrow> bool" where
  "valid_rule rule =
     (is_Str (get_field rule ''reactionName'') \<and>
      (case get_field rule ''channelNames'' of
         Undefined \<Rightarrow> True
       | Arr names \<Rightarrow> list_all is_Str names
       | _ \<Rightarrow> False))"

text \<open>
  When a rule matches, in the specification's words: the reaction name equals the
  event's reaction, and the channel restriction, if any, includes the resolved channel
  name.
\<close>

definition rule_accepts :: "rule_object \<Rightarrow> jsval \<Rightarrow> jsval \<Rightarrow> bool" where
  "rule_accepts rule reaction name =
     (reaction = get_field rule ''reactionName'' \<and>
      (case get_field rule ''channelNames'' of
         Undefined \<Rightarrow> True
       | Arr names \<Rightarrow> name \<in> set names
       | _ \<Rightarrow> False))"


section \<open>Facts about the values\<close>

lemma strict_eq_Str_right: "is_Str v \<Longrightarrow> strict_eq w v = (w = v)"
  by (cases v; cases w) auto

lemma strict_eq_Str_left: "is_Str v \<Longrightarrow> strict_eq v w = (v = w)"
  by (cases v; cases w) auto

lemma strict_eq_Str_const [simp]: "strict_eq w (Str s) = (w = Str s)"
  by (cases w) auto

lemma getprop_Inr_type:
  "getprop message p = Inr v \<Longrightarrow> \<exists>w. getprop message q = Inr w"
  by (cases message) auto

lemma array_indexOf_lower: "- 1 \<le> array_indexOf xs x"
  by (induction xs) (auto simp: Let_def)

lemma array_indexOf_member:
  "list_all is_Str xs \<Longrightarrow> array_indexOf xs x \<noteq> - 1 \<longleftrightarrow> x \<in> set xs"
proof (induction xs)
  case Nil
  then show ?case by simp
next
  case (Cons y ys)
  have "- 1 \<le> array_indexOf ys x" by (rule array_indexOf_lower)
  with Cons show ?case by (auto simp: Let_def strict_eq_Str_left)
qed

section \<open>Facts about \<^verbatim>\<open>Rule\<close>\<close>

lemma map_of_put: "map_of (put obj p v) q = (if q = p then Some v else map_of obj q)"
  by (induction obj p v rule: put.induct) auto

lemma map_of_own: "hasOwnProperty obj p \<Longrightarrow> map_of obj p = Some (get obj p)"
proof -
  assume "hasOwnProperty obj p"
  then have "map_of obj p \<noteq> None"
    by (simp add: hasOwnProperty_def map_of_eq_None_iff)
  then show ?thesis by (auto simp: get_def)
qed

lemma map_of_not_own: "\<not> hasOwnProperty obj p \<Longrightarrow> map_of obj p = None"
  by (simp add: hasOwnProperty_def map_of_eq_None_iff)

lemma hasOwnProperty_map_of: "hasOwnProperty obj p \<longleftrightarrow> map_of obj p \<noteq> None"
  by (simp add: hasOwnProperty_def map_of_eq_None_iff)

lemma set_enumerable_keys: "set (enumerable_keys obj) = fst ` set obj"
  by (induction obj rule: enumerable_keys.induct) auto

lemma enumerable_keys_own: "q \<in> set (enumerable_keys obj) \<longleftrightarrow> hasOwnProperty obj q"
  by (simp add: set_enumerable_keys hasOwnProperty_def)

text \<open>Where no exception and no setter is in the way, the loop copies the properties it
  visits.\<close>

lemma Rule_loop_plain:
  assumes "\<not> hasOwnProperty configRule ''hasOwnProperty''"
    and "''__proto__'' \<notin> set ps"
  shows "\<exists>r. Rule_loop configRule ps this = Inr r \<and> proto r = proto this \<and>
           (\<forall>q. map_of (own r) q =
              (if q \<in> set ps \<and> hasOwnProperty configRule q then map_of configRule q
               else map_of (own this) q))"
  using assms(2)
proof (induction ps arbitrary: this)
  case Nil
  then show ?case by simp
next
  case (Cons p ps)
  then have p: "p \<noteq> ''__proto__''" and ps: "''__proto__'' \<notin> set ps" by auto
  have call: "call_hasOwnProperty configRule p = Inr (hasOwnProperty configRule p)"
    using assms(1) by (simp add: call_hasOwnProperty_def)
  show ?case
  proof (cases "hasOwnProperty configRule p")
    case True
    let ?next = "assign this p (get configRule p)"
    have nxt: "own ?next = put (own this) p (get configRule p)" "proto ?next = proto this"
      using p by (simp_all add: assign_def)
    from Cons.IH[OF ps, of ?next] obtain r where
      r: "Rule_loop configRule ps ?next = Inr r" "proto r = proto ?next"
        "\<forall>q. map_of (own r) q =
           (if q \<in> set ps \<and> hasOwnProperty configRule q then map_of configRule q
            else map_of (own ?next) q)"
      by blast
    have "Rule_loop configRule (p # ps) this = Inr r"
      using call True r(1) by simp
    moreover have "proto r = proto this" using r(2) nxt(2) by simp
    moreover have "map_of (own r) q =
        (if q \<in> set (p # ps) \<and> hasOwnProperty configRule q then map_of configRule q
         else map_of (own this) q)" for q
      using r(3) nxt(1) True map_of_own[of configRule p]
      by (auto simp: map_of_put)
    ultimately show ?thesis by blast
  next
    case False
    from Cons.IH[OF ps, of this] obtain r where
      r: "Rule_loop configRule ps this = Inr r" "proto r = proto this"
        "\<forall>q. map_of (own r) q =
           (if q \<in> set ps \<and> hasOwnProperty configRule q then map_of configRule q
            else map_of (own this) q)"
      by blast
    have "Rule_loop configRule (p # ps) this = Inr r"
      using call False r(1) by simp
    moreover have "map_of (own r) q =
        (if q \<in> set (p # ps) \<and> hasOwnProperty configRule q then map_of configRule q
         else map_of (own this) q)" for q
      using r(3) False by auto
    ultimately show ?thesis using r(2) by blast
  qed
qed

lemma channelMatches_restricted:
  assumes "get_field this ''channelNames'' = Arr names" and "list_all is_Str names"
    and "getprop message ''item'' = Inr item"
    and "getprop item ''channel'' = Inr channel"
    and "getChannelByID client channel = Inr name"
  shows "channelMatches this message client = Inr (name \<in> set names)"
  using assms array_indexOf_member[of names name] by (simp add: channelMatches_def)

lemma match_valid:
  assumes "valid_rule rule"
    and "has_method rule ''reactionMatches''"
    and "has_method rule ''channelMatches''"
    and "getprop message ''reaction'' = Inr reaction"
    and "getprop message ''item'' = Inr item"
    and "getprop item ''channel'' = Inr channel"
    and "getChannelByID client channel = Inr name"
  shows "match rule message client = Inr (rule_accepts rule reaction name)"
  using assms
  by (auto simp: valid_rule_def match_def call_method_def reactionMatches_def
      channelMatches_def rule_accepts_def strict_eq_Str_right array_indexOf_member
      split: jsval.splits bool.splits)

section \<open>Facts about \<^verbatim>\<open>findMatchingRule\<close>\<close>

lemma array_find_total:
  "(\<And>x. x \<in> set xs \<Longrightarrow> f x = Inr (P x)) \<Longrightarrow> array_find f xs = Inr (List.find P xs)"
  by (induction xs) auto

lemma find_Some_split:
  "List.find P xs = Some x \<Longrightarrow>
     \<exists>before after. xs = before @ x # after \<and> P x \<and> (\<forall>y \<in> set before. \<not> P y)"
proof (induction xs)
  case Nil
  then show ?case by simp
next
  case (Cons a xs)
  show ?case
  proof (cases "P a")
    case True
    with Cons.prems have "a = x" by simp
    with True have "a # xs = [] @ x # xs \<and> P x \<and> (\<forall>y \<in> set []. \<not> P y)" by simp
    then show ?thesis by blast
  next
    case False
    with Cons obtain before after where
      "xs = before @ x # after" "P x" "\<forall>y \<in> set before. \<not> P y" by auto
    with False
    have "a # xs = (a # before) @ x # after \<and> P x \<and> (\<forall>y \<in> set (a # before). \<not> P y)"
      by simp
    then show ?thesis by blast
  qed
qed

lemma handled_message_True:
  assumes "getprop message ''type'' = Inr (Str REACTION_ADDED)"
    and "getprop message ''item'' = Inr item"
    and "getprop item ''type'' = Inr (Str ''message'')"
  shows "handled_message message = Inr True"
proof -
  have "truthy message" using assms(1) by (cases message) auto
  then show ?thesis using assms by (simp add: handled_message_def)
qed

text \<open>
  Where the guard can be evaluated and is false, no rule is looked for: this holds of a
  message that is \<^verbatim>\<open>undefined\<close> or \<^verbatim>\<open>null\<close>, of a message whose \<^verbatim>\<open>type\<close> is not
  \<^verbatim>\<open>reaction_added\<close>, and of a message whose \<^verbatim>\<open>item\<close> can be read and has a \<^verbatim>\<open>type\<close>
  other than \<^verbatim>\<open>message\<close>, whatever the rules and the resolver are.
\<close>

lemma findMatchingRule_other_message:
  assumes "message = Undefined \<or> message = Null \<or>
           (\<exists>ty. getprop message ''type'' = Inr ty \<and> ty \<noteq> Str REACTION_ADDED) \<or>
           (\<exists>item ity. getprop message ''item'' = Inr item \<and>
                       getprop item ''type'' = Inr ity \<and> ity \<noteq> Str ''message'')"
  shows "findMatchingRule this message = Inr None"
  using assms
proof (elim disjE)
  assume "message = Undefined"
  then show ?thesis by (simp add: findMatchingRule_def handled_message_def)
next
  assume "message = Null"
  then show ?thesis by (simp add: findMatchingRule_def handled_message_def)
next
  assume "\<exists>ty. getprop message ''type'' = Inr ty \<and> ty \<noteq> Str REACTION_ADDED"
  then have "handled_message message = Inr False"
    by (auto simp: handled_message_def)
  then show ?thesis by (simp add: findMatchingRule_def)
next
  assume "\<exists>item ity. getprop message ''item'' = Inr item \<and>
                       getprop item ''type'' = Inr ity \<and> ity \<noteq> Str ''message''"
  then obtain item ity where item: "getprop message ''item'' = Inr item"
    and ity: "getprop item ''type'' = Inr ity" "ity \<noteq> Str ''message''"
    by blast
  obtain ty where "getprop message ''type'' = Inr ty"
    using getprop_Inr_type[OF item] by blast
  with item ity have "handled_message message = Inr False"
    by (auto simp: handled_message_def)
  then show ?thesis by (simp add: findMatchingRule_def)
qed

lemmas example_defs =
  REACTION_def USER_ID_def CHANNEL_ID_def TIMESTAMP_def REACTION_ADDED_def
  reactionAddedMessage_def config_general_def config_any_def
  rule_general_def rule_any_def hasOwnProperty_def get_def get_field_def
  has_method_def call_method_def
  client_random_def client_failing_def middleware_of_def

lemmas program_defs =
  findMatchingRule_def handled_message_def match_def reactionMatches_def
  channelMatches_def

section \<open>Facts about \<^verbatim>\<open>execute\<close>\<close>

lemma stops_at_failure_split:
  "stops_at_failure ext calls result \<Longrightarrow> calls = before @ c # after \<Longrightarrow>
     failure_of ext c = Some e \<Longrightarrow> after = [] \<and> result = Inl e"
proof (induction before arbitrary: calls)
  case Nil
  then show ?case by simp
next
  case (Cons b bs)
  then have calls: "calls = b # (bs @ c # after)" by simp
  show ?case
  proof (cases "failure_of ext b")
    case None
    with Cons.prems(1) calls have "stops_at_failure ext (bs @ c # after) result" by simp
    from Cons.IH[OF this refl Cons.prems(3)] show ?thesis .
  next
    case (Some e')
    with Cons.prems(1) calls show ?thesis by simp
  qed
qed

lemma execute_event_stops:
  "stops_at_failure ext (snd (execute_event this ext event)) (fst (execute_event this ext event))"
  by (simp add: execute_event_def split: sum.splits option.splits)

lemma execute_event_distinct: "distinct (snd (execute_event this ext event))"
  by (simp add: execute_event_def split: sum.splits option.splits)

section \<open>Facts about the store\<close>

lemma preserves_return: "preserves_store (return_js x)"
  by (simp add: preserves_store_def return_js_def)

lemma preserves_throw: "preserves_store (throw_js e)"
  by (simp add: preserves_store_def throw_js_def)

lemma preserves_lift: "preserves_store (lift_js r)"
  by (simp add: preserves_store_def lift_js_def)

lemma preserves_read_prop: "preserves_store (read_prop r p)"
  by (simp add: preserves_store_def read_prop_def)

lemma preserves_read_rules: "preserves_store read_rules"
  by (simp add: preserves_store_def read_rules_def)

lemma preserves_bind:
  assumes "preserves_store m" and "\<And>x. preserves_store (f x)"
  shows "preserves_store (bind_js m f)"
proof -
  have "snd (bind_js m f s) = s" for s
  proof (cases "m s")
    case (Pair r s')
    with assms(1) have "s' = s"
      by (auto simp: preserves_store_def dest: spec[of _ s])
    with Pair assms(2) show ?thesis
      by (cases r) (auto simp: bind_js_def preserves_store_def)
  qed
  then show ?thesis by (simp add: preserves_store_def)
qed

lemma preserves_reactionMatches: "preserves_store (reactionMatches_st this message)"
  unfolding reactionMatches_st_def
  by (intro preserves_bind preserves_read_prop preserves_return)

lemma preserves_channelMatches: "preserves_store (channelMatches_st this message client)"
  unfolding channelMatches_st_def
  by (intro preserves_bind preserves_read_prop)
     (auto intro!: preserves_bind preserves_read_prop preserves_return preserves_throw
        preserves_lift)

lemma preserves_match: "preserves_store (match_st this message client)"
  unfolding match_st_def
  by (intro preserves_bind preserves_reactionMatches)
     (auto intro: preserves_channelMatches preserves_return)

lemma preserves_array_find:
  assumes "\<And>x. preserves_store (f x)"
  shows "preserves_store (array_find_st f xs)"
proof -
  have "snd (array_find_st f xs s) = s" for s
  proof (induction xs)
    case Nil
    show ?case by simp
  next
    case (Cons x xs)
    obtain r s' where fx: "f x s = (r, s')" by (cases "f x s")
    with assms[of x] have "s' = s"
      by (auto simp: preserves_store_def dest: spec[of _ s])
    with fx Cons show ?case by (auto split: sum.splits bool.splits)
  qed
  then show ?thesis by (simp add: preserves_store_def)
qed

lemma preserves_handled_message: "preserves_store (handled_message_st message)"
proof -
  have "preserves_store (bind_js (read_prop message ''type'') (\<lambda>ty.
              if \<not> strict_eq ty (Str REACTION_ADDED) then return_js False
              else
                bind_js (read_prop message ''item'') (\<lambda>item.
                bind_js (lift_js (getprop item ''type'')) (\<lambda>ity.
                return_js (strict_eq ity (Str ''message''))))))"
    by (intro preserves_bind preserves_read_prop)
       (auto intro!: preserves_bind preserves_read_prop preserves_return preserves_lift)
  then show ?thesis
    by (simp add: preserves_store_def handled_message_st_def)
qed

lemma preserves_findMatchingRule: "preserves_store (findMatchingRule_st client message)"
  unfolding findMatchingRule_st_def
  by (intro preserves_bind preserves_handled_message)
     (auto intro!: preserves_bind preserves_read_rules preserves_array_find preserves_match
        preserves_return)

text \<open>The constructor does change the store: the new object gets the fields.\<close>

lemma Rule_loop_st_result:
  "objects s this = Obj fs \<Longrightarrow>
   Rule_loop_st this configRule ps s =
     (Inr (),
      s\<lparr> objects := (objects s)
           (this := Obj (fold (\<lambda>p obj. if hasOwnProperty configRule p
                                      then put obj p (get configRule p) else obj) ps fs)) \<rparr>)"
proof (induction ps arbitrary: s fs)
  case Nil
  then have "(objects s)(this := Obj fs) = objects s" by auto
  then show ?case by simp
next
  case (Cons p ps)
  let ?copy = "\<lambda>p obj. if hasOwnProperty configRule p then put obj p (get configRule p) else obj"
  show ?case
  proof (cases "hasOwnProperty configRule p")
    case True
    let ?s' = "s\<lparr> objects := (objects s)(this := Obj (put fs p (get configRule p))) \<rparr>"
    have w: "write_prop this p (get configRule p) s = (Inr (), ?s')"
      using Cons.prems by (simp add: write_prop_def)
    have "objects ?s' this = Obj (put fs p (get configRule p))" by simp
    from Cons.IH[OF this]
    have "Rule_loop_st this configRule ps ?s' =
        (Inr (), ?s'\<lparr> objects := (objects ?s')
           (this := Obj (fold ?copy ps (put fs p (get configRule p)))) \<rparr>)" .
    moreover have "?s'\<lparr> objects := (objects ?s')
           (this := Obj (fold ?copy ps (put fs p (get configRule p)))) \<rparr> =
        s\<lparr> objects := (objects s)
           (this := Obj (fold ?copy ps (put fs p (get configRule p)))) \<rparr>"
      by simp
    ultimately show ?thesis using w True by (simp add: fun_upd_def)
  next
    case False
    with Cons show ?thesis by simp
  qed
qed

lemma new_Rule_result:
  "new_Rule r configRule s =
     (Inr (),
      s\<lparr> objects := (objects s)
           (r := Obj (fold (\<lambda>p obj. if hasOwnProperty configRule p
                                   then put obj p (get configRule p) else obj)
                       (enumerable_keys configRule) [])) \<rparr>)"
  using Rule_loop_st_result
    [of "s\<lparr> objects := (objects s)(r := Obj []) \<rparr>" r "[]" configRule
        "enumerable_keys configRule"]
  by (simp add: new_Rule_def Rule_st_def)

text \<open>
  The methods over the store compute what the methods over the values compute, for a
  rule as the constructor makes it and where no field of the rule hides a method.
\<close>

lemma get_field_rule_at:
  "objects s this = Obj fs \<Longrightarrow> get_field (rule_at s this) p = get fs p"
  by (simp add: rule_at_def get_field_def get_def split: option.splits)

lemma reactionMatches_st_result:
  "objects s this = Obj fs \<Longrightarrow>
   reactionMatches_st this message s =
     (reactionMatches (rule_at s this) (objects s message), s)"
  by (simp add: reactionMatches_st_def reactionMatches_def bind_js_def read_prop_def
      return_js_def get_field_rule_at split: sum.splits)

lemma channelMatches_st_result:
  "objects s this = Obj fs \<Longrightarrow>
   channelMatches_st this message client s =
     (channelMatches (rule_at s this) (objects s message) client, s)"
  by (simp add: channelMatches_st_def channelMatches_def bind_js_def read_prop_def
      return_js_def throw_js_def lift_js_def get_field_rule_at split: sum.splits)

lemma match_st_result:
  "objects s this = Obj fs \<Longrightarrow>
   has_method (rule_at s this) ''reactionMatches'' \<Longrightarrow>
   has_method (rule_at s this) ''channelMatches'' \<Longrightarrow>
   match_st this message client s = (match (rule_at s this) (objects s message) client, s)"
  by (simp add: match_st_def match_def call_method_def bind_js_def return_js_def
      reactionMatches_st_result channelMatches_st_result split: sum.splits bool.splits)

lemma handled_message_st_result:
  "handled_message_st message s = (handled_message (objects s message), s)"
  by (simp add: handled_message_st_def handled_message_def bind_js_def read_prop_def
      return_js_def lift_js_def split: sum.splits)

lemma array_find_st_result:
  assumes "\<And>x. x \<in> set xs \<Longrightarrow> f_st x s = (f (g x), s)"
  shows "array_find_st f_st xs s =
           (fst (array_find_st f_st xs s), s) \<and>
         map_sum id (map_option g) (fst (array_find_st f_st xs s)) = array_find f (map g xs)"
  using assms
  by (induction xs) (auto split: sum.splits bool.splits)

lemma findMatchingRule_st_result:
  assumes "\<forall>r \<in> set (rule_array s).
             (\<exists>fs. objects s r = Obj fs) \<and>
             has_method (rule_at s r) ''match'' \<and>
             has_method (rule_at s r) ''reactionMatches'' \<and>
             has_method (rule_at s r) ''channelMatches''"
  shows "map_sum id (map_option (rule_at s))
           (fst (findMatchingRule_st client message s)) =
         findMatchingRule
           \<lparr> rules = map (rule_at s) (rule_array s),
             successReaction = success, slackClient = client, githubClient = github \<rparr>
           (objects s message)"
proof -
  have step: "match_st r message client s =
      (call_method (rule_at s r) ''match''
         (match (rule_at s r) (objects s message) client), s)"
    if "r \<in> set (rule_array s)" for r
  proof -
    from that assms obtain fs where "objects s r = Obj fs"
      and "has_method (rule_at s r) ''match''"
      and "has_method (rule_at s r) ''reactionMatches''"
      and "has_method (rule_at s r) ''channelMatches''"
      by blast
    then show ?thesis by (simp add: match_st_result call_method_def)
  qed
  from array_find_st_result
    [of "rule_array s" "\<lambda>rule. match_st rule message client" s
        "\<lambda>rule. call_method rule ''match'' (match rule (objects s message) client)"
        "rule_at s", OF step]
  show ?thesis
    by (simp add: findMatchingRule_st_def findMatchingRule_def bind_js_def return_js_def
        read_rules_def handled_message_st_result split: sum.splits bool.splits)
qed

section \<open>The claims\<close>

text \<open>
  Claim C1, as amended. The claim speaks of every message, every rule and every resolver.
  \<^verbatim>\<open>findMatchingRule\<close> looks for a rule only when the message is a \<^verbatim>\<open>reaction_added\<close>
  message whose item is a message; it throws when the resolver throws, when a rule is not
  one of the data model, or when a rule has not the methods of \<^verbatim>\<open>Rule.prototype\<close> (a
  field of the rule hides one, or a key \<^verbatim>\<open>__proto__\<close> of the configuration has replaced
  the prototype). For a handled message, rules of the data model that have the methods
  \<^verbatim>\<open>match\<close>, \<^verbatim>\<open>reactionMatches\<close> and \<^verbatim>\<open>channelMatches\<close> of \<^verbatim>\<open>Rule.prototype\<close>, and
  a resolver that answers for the message's channel,
  \<^verbatim>\<open>findMatchingRule\<close> returns the first rule in configured order whose reaction name
  equals the message's reaction and whose channel restriction, if any, includes the
  resolved channel name: every rule before the one returned does not match, and none is
  returned exactly when no rule matches.
\<close>

theorem findMatchingRule_first_match:
  assumes "\<forall>rule \<in> set (rules this).
             valid_rule rule \<and> has_method rule ''match'' \<and>
             has_method rule ''reactionMatches'' \<and> has_method rule ''channelMatches''"
    and "getprop message ''type'' = Inr (Str REACTION_ADDED)"
    and "getprop message ''item'' = Inr item"
    and "getprop item ''type'' = Inr (Str ''message'')"
    and "getprop message ''reaction'' = Inr reaction"
    and "getprop item ''channel'' = Inr channel"
    and "getChannelByID (slackClient this) channel = Inr name"
  shows "findMatchingRule this message =
           Inr (List.find (\<lambda>rule. rule_accepts rule reaction name) (rules this)) \<and>
         (\<forall>rule. findMatchingRule this message = Inr (Some rule) \<longrightarrow>
            (\<exists>before after. rules this = before @ rule # after \<and>
               rule_accepts rule reaction name \<and>
               (\<forall>earlier \<in> set before. \<not> rule_accepts earlier reaction name))) \<and>
         (findMatchingRule this message = Inr None \<longleftrightarrow>
            (\<forall>rule \<in> set (rules this). \<not> rule_accepts rule reaction name))"
proof -
  have "handled_message message = Inr True"
    using assms(2,3,4) by (rule handled_message_True)
  moreover
  have "call_method rule ''match'' (match rule message (slackClient this)) =
      Inr (rule_accepts rule reaction name)"
    if "rule \<in> set (rules this)" for rule
  proof -
    from that assms(1) have rule: "valid_rule rule" "has_method rule ''match''"
      "has_method rule ''reactionMatches''" "has_method rule ''channelMatches''"
      by auto
    from match_valid[OF rule(1,3,4) assms(5,3,6,7)] rule(2)
    show ?thesis by (simp add: call_method_def)
  qed
  then have "array_find
      (\<lambda>rule. call_method rule ''match'' (match rule message (slackClient this)))
      (rules this) =
      Inr (List.find (\<lambda>rule. rule_accepts rule reaction name) (rules this))"
    by (rule array_find_total)
  ultimately
  have eq: "findMatchingRule this message =
      Inr (List.find (\<lambda>rule. rule_accepts rule reaction name) (rules this))"
    by (simp add: findMatchingRule_def)
  have first: "\<exists>before after. rules this = before @ rule # after \<and>
               rule_accepts rule reaction name \<and>
               (\<forall>earlier \<in> set before. \<not> rule_accepts earlier reaction name)"
    if "findMatchingRule this message = Inr (Some rule)" for rule
    using that eq find_Some_split[of "\<lambda>rule. rule_accepts rule reaction name" "rules this" rule]
    by simp
  have none: "findMatchingRule this message = Inr None \<longleftrightarrow>
            (\<forall>rule \<in> set (rules this). \<not> rule_accepts rule reaction name)"
    using eq by (auto simp: find_None_iff)
  from eq first none show ?thesis by blast
qed

theorem findMatchingRule_first_match_witness:
  "Middleware baseConfig client_random () =
     Inr (middleware_of [rule_general, rule_any, rule_late] client_random) \<and>
   findMatchingRule (middleware_of [rule_general, rule_any, rule_late] client_random)
     reactionAddedMessage = Inr (Some rule_any)"
proof -
  have made: "Middleware baseConfig client_random () =
     Inr (middleware_of [rule_general, rule_any, rule_late] client_random)"
    by (simp add: example_defs Middleware_def baseConfig_def config_late_def rule_late_def
        Rule_def call_hasOwnProperty_def assign_def)
  from findMatchingRule_first_match
    [of "middleware_of [rule_general, rule_any, rule_late] client_random"
        reactionAddedMessage
        "Obj [(''type'', Str ''message''), (''channel'', Str CHANNEL_ID), (''ts'', Str TIMESTAMP)]"
        "Str REACTION" "Str CHANNEL_ID" "Str ''random''"]
  have "findMatchingRule (middleware_of [rule_general, rule_any, rule_late] client_random)
     reactionAddedMessage = Inr (Some rule_any)"
    by (simp add: example_defs config_late_def rule_late_def valid_rule_def rule_accepts_def)
  with made show ?thesis by simp
qed

text \<open>
  The claim fails where the message is not handled (a reaction to a file), where the
  resolver throws on the way to a rule that matches, where a rule before the matching one
  has \<^verbatim>\<open>channelNames\<close> \<^verbatim>\<open>null\<close>, and where the matching rule, as the constructor
  makes it, has a field \<^verbatim>\<open>match\<close>, \<^verbatim>\<open>reactionMatches\<close> or \<^verbatim>\<open>channelMatches\<close>, or has
  lost its prototype to a key \<^verbatim>\<open>__proto__\<close> of the configuration.
\<close>

theorem findMatchingRule_first_match_counterexample:
  "match rule_any fileReactionMessage client_random = Inr True \<and>
   findMatchingRule (middleware_of [rule_any] client_random) fileReactionMessage = Inr None \<and>
   match rule_any reactionAddedMessage client_failing = Inr True \<and>
   findMatchingRule (middleware_of [rule_general, rule_any] client_failing)
     reactionAddedMessage = Inl (Thrown ''not connected'') \<and>
   findMatchingRule (middleware_of [rule_null_channels, rule_any] client_random)
     reactionAddedMessage = Inl TypeError \<and>
   Rule config_field_match = Inr rule_field_match \<and>
   valid_rule rule_field_match \<and>
   rule_accepts rule_field_match (Str REACTION) (Str ''random'') \<and>
   findMatchingRule (middleware_of [rule_field_match] client_random)
     reactionAddedMessage = Inl TypeError \<and>
   findMatchingRule (middleware_of [rule_field_reactionMatches] client_random)
     reactionAddedMessage = Inl TypeError \<and>
   findMatchingRule (middleware_of [rule_field_channelMatches] client_random)
     reactionAddedMessage = Inl TypeError \<and>
   Rule config_null_prototype = Inr rule_null_prototype \<and>
   valid_rule rule_null_prototype \<and>
   rule_accepts rule_null_prototype (Str REACTION) (Str ''random'') \<and>
   findMatchingRule (middleware_of [rule_null_prototype] client_random)
     reactionAddedMessage = Inl TypeError"
  by (simp add: example_defs program_defs fileReactionMessage_def rule_null_channels_def
      config_field_match_def rule_field_match_def rule_field_reactionMatches_def
      rule_field_channelMatches_def config_null_prototype_def rule_null_prototype_def
      valid_rule_def rule_accepts_def Rule_def call_hasOwnProperty_def assign_def)

text \<open>
  Claim C2, as amended. \<^verbatim>\<open>match\<close> calls \<^verbatim>\<open>this.reactionMatches\<close> and
  \<^verbatim>\<open>this.channelMatches\<close>, and a rule may have a field of either name, which the call
  finds instead of the method, or may have lost \<^verbatim>\<open>Rule.prototype\<close>: then \<^verbatim>\<open>match\<close>
  throws. For every rule of the data model that has the methods \<^verbatim>\<open>reactionMatches\<close> and
  \<^verbatim>\<open>channelMatches\<close> of \<^verbatim>\<open>Rule.prototype\<close>, every message
  and every resolver, \<^verbatim>\<open>Rule.match\<close> returns true if and only if \<^verbatim>\<open>message.reaction\<close>
  equals the rule's \<^verbatim>\<open>reactionName\<close> and either \<^verbatim>\<open>channelNames\<close> is unset or the
  resolver's name for \<^verbatim>\<open>message.item.channel\<close> is a member of \<^verbatim>\<open>channelNames\<close>. Where the
  message has an item and the resolver answers, \<^verbatim>\<open>match\<close> returns a boolean, so it
  returns false otherwise.
\<close>

theorem match_iff:
  assumes "valid_rule this"
    and "has_method this ''reactionMatches''"
    and "has_method this ''channelMatches''"
  shows "(match this message client = Inr True \<longleftrightarrow>
            getprop message ''reaction'' = Inr (get_field this ''reactionName'') \<and>
            (get_field this ''channelNames'' = Undefined \<or>
             (\<exists>item channel name names.
                getprop message ''item'' = Inr item \<and>
                getprop item ''channel'' = Inr channel \<and>
                getChannelByID client channel = Inr name \<and>
                get_field this ''channelNames'' = Arr names \<and> name \<in> set names))) \<and>
         ((\<exists>item channel name.
             getprop message ''item'' = Inr item \<and>
             getprop item ''channel'' = Inr channel \<and>
             getChannelByID client channel = Inr name) \<longrightarrow>
          (\<exists>b. match this message client = Inr b))"
proof
  show "match this message client = Inr True \<longleftrightarrow>
            getprop message ''reaction'' = Inr (get_field this ''reactionName'') \<and>
            (get_field this ''channelNames'' = Undefined \<or>
             (\<exists>item channel name names.
                getprop message ''item'' = Inr item \<and>
                getprop item ''channel'' = Inr channel \<and>
                getChannelByID client channel = Inr name \<and>
                get_field this ''channelNames'' = Arr names \<and> name \<in> set names))"
    using assms
    by (auto simp: valid_rule_def match_def call_method_def reactionMatches_def
        channelMatches_def strict_eq_Str_right array_indexOf_member
        split: sum.splits bool.splits jsval.splits)
next
  show "(\<exists>item channel name.
             getprop message ''item'' = Inr item \<and>
             getprop item ''channel'' = Inr channel \<and>
             getChannelByID client channel = Inr name) \<longrightarrow>
          (\<exists>b. match this message client = Inr b)"
  proof
    assume "\<exists>item channel name.
             getprop message ''item'' = Inr item \<and>
             getprop item ''channel'' = Inr channel \<and>
             getChannelByID client channel = Inr name"
    then obtain item channel name where item: "getprop message ''item'' = Inr item"
      and channel: "getprop item ''channel'' = Inr channel"
      and name: "getChannelByID client channel = Inr name"
      by blast
    obtain reaction where reaction: "getprop message ''reaction'' = Inr reaction"
      using getprop_Inr_type[OF item] by blast
    from match_valid[OF assms reaction item channel name]
    show "\<exists>b. match this message client = Inr b"
      by blast
  qed
qed

theorem match_iff_witness:
  "match rule_general reactionAddedMessage client_general = Inr True \<and>
   match rule_general reactionAddedMessage client_random \<noteq> Inr True"
  using match_iff [of rule_general reactionAddedMessage client_general]
    match_iff [of rule_general reactionAddedMessage client_random]
  by (simp add: example_defs client_general_def valid_rule_def)

text \<open>
  A rule of the data model with a field \<^verbatim>\<open>reactionMatches\<close>, as the constructor makes it,
  one with a field \<^verbatim>\<open>channelMatches\<close>, and one that has lost its prototype to a key
  \<^verbatim>\<open>__proto__\<close> of the configuration: the reaction is the rule's and the channel is not
  restricted, and \<^verbatim>\<open>match\<close> throws.
\<close>

theorem match_iff_counterexample:
  "Rule (own rule_field_reactionMatches) = Inr rule_field_reactionMatches \<and>
   valid_rule rule_field_reactionMatches \<and>
   getprop reactionAddedMessage ''reaction''
     = Inr (get_field rule_field_reactionMatches ''reactionName'') \<and>
   get_field rule_field_reactionMatches ''channelNames'' = Undefined \<and>
   match rule_field_reactionMatches reactionAddedMessage client_random = Inl TypeError \<and>
   valid_rule rule_field_channelMatches \<and>
   getprop reactionAddedMessage ''reaction''
     = Inr (get_field rule_field_channelMatches ''reactionName'') \<and>
   get_field rule_field_channelMatches ''channelNames'' = Undefined \<and>
   match rule_field_channelMatches reactionAddedMessage client_random = Inl TypeError \<and>
   Rule config_null_prototype = Inr rule_null_prototype \<and>
   valid_rule rule_null_prototype \<and>
   getprop reactionAddedMessage ''reaction''
     = Inr (get_field rule_null_prototype ''reactionName'') \<and>
   get_field rule_null_prototype ''channelNames'' = Undefined \<and>
   match rule_null_prototype reactionAddedMessage client_random = Inl TypeError"
  by (simp add: example_defs program_defs rule_field_reactionMatches_def
      rule_field_channelMatches_def config_null_prototype_def rule_null_prototype_def
      valid_rule_def Rule_def call_hasOwnProperty_def assign_def)

text \<open>
  Claim C3. The claim is that \<^verbatim>\<open>findMatchingRule\<close> returns none for every message whose
  \<^verbatim>\<open>type\<close> is not \<^verbatim>\<open>reaction_added\<close> or whose \<^verbatim>\<open>item.type\<close> is not \<^verbatim>\<open>message\<close>. The
  code does so where the guard can be evaluated (\<open>findMatchingRule_other_message\<close>), and
  misses one case: for a \<^verbatim>\<open>reaction_added\<close> message with no \<^verbatim>\<open>item\<close>, or whose
  \<^verbatim>\<open>item\<close> is \<^verbatim>\<open>null\<close>, the guard reads \<^verbatim>\<open>message.item.type\<close> and throws a
  \<^verbatim>\<open>TypeError\<close>, whatever the rules are.
\<close>

theorem findMatchingRule_no_item_throws:
  "getprop itemlessMessage ''type'' = Inr (Str REACTION_ADDED) \<and>
   getprop itemlessMessage ''item'' = Inr Undefined \<and>
   findMatchingRule (middleware_of [rule_general, rule_any] client_random) itemlessMessage
     = Inl TypeError \<and>
   findMatchingRule (middleware_of [] client_random) itemlessMessage = Inl TypeError \<and>
   getprop nullItemMessage ''item'' = Inr Null \<and>
   findMatchingRule (middleware_of [rule_general, rule_any] client_random) nullItemMessage
     = Inl TypeError"
  by (simp add: example_defs program_defs itemlessMessage_def nullItemMessage_def)

text \<open>
  Claim C5, as amended. The claim fails on a \<^verbatim>\<open>reaction_added\<close> event with no \<^verbatim>\<open>item\<close>
  (reading \<^verbatim>\<open>message.item.type\<close> throws a \<^verbatim>\<open>TypeError\<close>), and on an event that lacks
  only fields \<^verbatim>\<open>findMatchingRule\<close> never reads or that an unrestricted rule never reads
  (\<^verbatim>\<open>user\<close>, \<^verbatim>\<open>item.ts\<close>, \<^verbatim>\<open>item.channel\<close>): such an event is matched like any other.
  What holds: an event that is \<^verbatim>\<open>null\<close>, \<^verbatim>\<open>undefined\<close> or another falsy value, an event
  without a \<^verbatim>\<open>type\<close>, and an event whose item has no \<^verbatim>\<open>type\<close>, each is a non-match,
  whatever the rules are; so is a handled event without a \<^verbatim>\<open>reaction\<close>, for rules whose
  \<^verbatim>\<open>reactionName\<close> is a string and that have the methods \<^verbatim>\<open>match\<close> and
  \<^verbatim>\<open>reactionMatches\<close> of \<^verbatim>\<open>Rule.prototype\<close>. \<^verbatim>\<open>findMatchingRule\<close> returns none then
  and throws nothing.
\<close>

theorem findMatchingRule_missing_fields:
  "(\<not> truthy message \<longrightarrow> findMatchingRule this message = Inr None) \<and>
   (getprop message ''type'' = Inr Undefined \<longrightarrow>
      findMatchingRule this message = Inr None) \<and>
   ((\<exists>item. getprop message ''item'' = Inr item \<and>
            getprop item ''type'' = Inr Undefined) \<longrightarrow>
      findMatchingRule this message = Inr None) \<and>
   ((\<forall>rule \<in> set (rules this).
        is_Str (get_field rule ''reactionName'') \<and>
        has_method rule ''match'' \<and> has_method rule ''reactionMatches'') \<and>
    handled_message message = Inr True \<and>
    getprop message ''reaction'' = Inr Undefined \<longrightarrow>
      findMatchingRule this message = Inr None)"
proof (intro conjI impI)
  assume "\<not> truthy message"
  then show "findMatchingRule this message = Inr None"
    by (simp add: findMatchingRule_def handled_message_def)
next
  assume "getprop message ''type'' = Inr Undefined"
  then show "findMatchingRule this message = Inr None"
    by (simp add: findMatchingRule_def handled_message_def)
next
  assume "\<exists>item. getprop message ''item'' = Inr item \<and> getprop item ''type'' = Inr Undefined"
  then obtain item where item: "getprop message ''item'' = Inr item"
    and ity: "getprop item ''type'' = Inr Undefined"
    by blast
  obtain ty where "getprop message ''type'' = Inr ty"
    using getprop_Inr_type[OF item] by blast
  with item ity show "findMatchingRule this message = Inr None"
    by (simp add: findMatchingRule_def handled_message_def)
next
  assume a: "(\<forall>rule \<in> set (rules this).
        is_Str (get_field rule ''reactionName'') \<and>
        has_method rule ''match'' \<and> has_method rule ''reactionMatches'') \<and>
    handled_message message = Inr True \<and>
    getprop message ''reaction'' = Inr Undefined"
  have "call_method rule ''match'' (match rule message (slackClient this)) = Inr False"
    if "rule \<in> set (rules this)" for rule
  proof -
    from that a have rule: "is_Str (get_field rule ''reactionName'')"
      "has_method rule ''match''" "has_method rule ''reactionMatches''"
      by auto
    from rule(1) have "\<not> strict_eq Undefined (get_field rule ''reactionName'')"
      by (cases "get_field rule ''reactionName''") auto
    with a rule(2,3) show ?thesis
      by (simp add: call_method_def match_def reactionMatches_def)
  qed
  then have "array_find
      (\<lambda>rule. call_method rule ''match'' (match rule message (slackClient this)))
      (rules this) =
      Inr (List.find (\<lambda>rule. False) (rules this))"
    by (intro array_find_total) simp
  moreover have "List.find (\<lambda>rule. False) (rules this) = None"
    by (simp add: find_None_iff)
  ultimately show "findMatchingRule this message = Inr None"
    using a by (simp add: findMatchingRule_def)
qed

theorem findMatchingRule_missing_fields_witness:
  "findMatchingRule (middleware_of [rule_null_channels, rule_field_match] client_failing) Null
     = Inr None \<and>
   findMatchingRule (middleware_of [rule_null_channels, rule_field_match] client_failing)
     (Obj [(''reaction'', Str REACTION)]) = Inr None \<and>
   findMatchingRule (middleware_of [rule_null_channels, rule_field_match] client_failing)
     (Obj [(''type'', Str REACTION_ADDED), (''item'', Obj []), (''reaction'', Str REACTION)])
     = Inr None \<and>
   findMatchingRule (middleware_of [rule_general, rule_any] client_failing)
     reactionlessMessage = Inr None"
  using findMatchingRule_missing_fields
    [of Null "middleware_of [rule_null_channels, rule_field_match] client_failing"]
    findMatchingRule_missing_fields
    [of "Obj [(''reaction'', Str REACTION)]"
        "middleware_of [rule_null_channels, rule_field_match] client_failing"]
    findMatchingRule_missing_fields
    [of "Obj [(''type'', Str REACTION_ADDED), (''item'', Obj []), (''reaction'', Str REACTION)]"
        "middleware_of [rule_null_channels, rule_field_match] client_failing"]
    findMatchingRule_missing_fields
    [of reactionlessMessage "middleware_of [rule_general, rule_any] client_failing"]
  by (simp add: example_defs reactionlessMessage_def handled_message_def)

text \<open>
  The claim fails on the event with no item; on the event with no user, no timestamp and
  no channel, which a rule without channel restriction matches; and, for an event with no
  reaction, where a rule has a field \<^verbatim>\<open>match\<close> or \<^verbatim>\<open>reactionMatches\<close>, has lost its
  prototype, or has no \<^verbatim>\<open>reactionName\<close>.
\<close>

theorem findMatchingRule_missing_fields_counterexample:
  "findMatchingRule (middleware_of [] client_random) itemlessMessage = Inl TypeError \<and>
   findMatchingRule (middleware_of [rule_any] client_failing) bareMessage
     = Inr (Some rule_any) \<and>
   findMatchingRule (middleware_of [rule_field_match] client_random) reactionlessMessage
     = Inl TypeError \<and>
   findMatchingRule (middleware_of [rule_field_reactionMatches] client_random)
     reactionlessMessage = Inl TypeError \<and>
   findMatchingRule (middleware_of [rule_null_prototype] client_random) reactionlessMessage
     = Inl TypeError \<and>
   findMatchingRule (middleware_of [rule_nameless] client_random) reactionlessMessage
     = Inr (Some rule_nameless)"
  by (simp add: example_defs program_defs itemlessMessage_def bareMessage_def
      reactionlessMessage_def config_field_match_def rule_field_match_def
      rule_field_reactionMatches_def rule_null_prototype_def rule_nameless_def)

text \<open>
  Claim C6, as amended. A rule whose \<^verbatim>\<open>channelNames\<close> is unset never asks the resolver,
  so a lookup that would yield not-found does not keep it from matching; and a rule with
  a field \<^verbatim>\<open>reactionMatches\<close> or \<^verbatim>\<open>channelMatches\<close>, or one that has lost
  \<^verbatim>\<open>Rule.prototype\<close>, makes \<^verbatim>\<open>match\<close> throw. For every rule whose \<^verbatim>\<open>channelNames\<close> is
  a list of names and that has the methods \<^verbatim>\<open>reactionMatches\<close> and \<^verbatim>\<open>channelMatches\<close>
  of \<^verbatim>\<open>Rule.prototype\<close>, and every message with an item, if the
  resolver's lookup of the message's channel id yields not-found (\<^verbatim>\<open>undefined\<close> or
  \<^verbatim>\<open>null\<close>), \<^verbatim>\<open>Rule.match\<close> returns false, and nothing is thrown.
\<close>

theorem match_not_found:
  assumes "get_field this ''channelNames'' = Arr names" and "list_all is_Str names"
    and "has_method this ''reactionMatches''"
    and "has_method this ''channelMatches''"
    and "getprop message ''item'' = Inr item"
    and "getprop item ''channel'' = Inr channel"
    and "getChannelByID client channel = Inr name"
    and "name = Undefined \<or> name = Null"
  shows "match this message client = Inr False"
proof -
  have "name \<notin> set names"
    using assms(2,8) by (auto simp: list_all_iff)
  then have "channelMatches this message client = Inr False"
    using channelMatches_restricted[OF assms(1,2,5,6,7)] by simp
  moreover obtain reaction where "getprop message ''reaction'' = Inr reaction"
    using getprop_Inr_type[OF assms(5)] by blast
  ultimately show ?thesis
    using assms(3,4)
    by (simp add: match_def call_method_def reactionMatches_def split: bool.splits)
qed

theorem match_not_found_witness:
  "getChannelByID client_unknown (Str CHANNEL_ID) = Inr Undefined \<and>
   match rule_general reactionAddedMessage client_unknown = Inr False"
  using match_not_found
    [of rule_general "[Str ''general'']" reactionAddedMessage
        "Obj [(''type'', Str ''message''), (''channel'', Str CHANNEL_ID), (''ts'', Str TIMESTAMP)]"
        "Str CHANNEL_ID" client_unknown Undefined]
  by (simp add: example_defs client_unknown_def)

theorem match_not_found_counterexample:
  "getChannelByID client_unknown (Str CHANNEL_ID) = Inr Undefined \<and>
   match rule_any reactionAddedMessage client_unknown = Inr True \<and>
   get_field rule_general_field_reactionMatches ''channelNames'' = Arr [Str ''general''] \<and>
   match rule_general_field_reactionMatches reactionAddedMessage client_unknown
     = Inl TypeError \<and>
   get_field rule_general_field_channelMatches ''channelNames'' = Arr [Str ''general''] \<and>
   match rule_general_field_channelMatches reactionAddedMessage client_unknown
     = Inl TypeError \<and>
   Rule config_general_prototype = Inr rule_general_prototype \<and>
   get_field rule_general_prototype ''channelNames'' = Arr [Str ''general''] \<and>
   match rule_general_prototype reactionAddedMessage client_unknown = Inl TypeError"
  by (simp add: example_defs client_unknown_def program_defs
      rule_general_field_reactionMatches_def rule_general_field_channelMatches_def
      config_general_prototype_def rule_general_prototype_def
      Rule_def call_hasOwnProperty_def assign_def)

text \<open>
  Claim C8, as amended. The constructor calls \<^verbatim>\<open>configRule.hasOwnProperty\<close>, which a
  key \<^verbatim>\<open>hasOwnProperty\<close> of the configuration hides, so the constructor throws; and its
  assignment to \<^verbatim>\<open>this['__proto__']\<close> runs a setter, which changes the prototype of the
  rule or does nothing, and copies no field. For every configuration rule object with
  neither key, the constructor returns a rule, with the prototype \<^verbatim>\<open>Rule.prototype\<close>,
  whose own properties are those of the configuration object with the same values;
  \<^verbatim>\<open>reactionName\<close> and \<^verbatim>\<open>channelNames\<close> read on the rule are what the configuration has.
\<close>

theorem Rule_copies_fields:
  assumes "\<not> hasOwnProperty configRule ''hasOwnProperty''"
    and "\<not> hasOwnProperty configRule ''__proto__''"
  shows "\<exists>rule. Rule configRule = Inr rule \<and>
           proto rule = Rule_prototype \<and>
           map_of (own rule) = map_of configRule \<and>
           (\<forall>p. hasOwnProperty (own rule) p = hasOwnProperty configRule p) \<and>
           get_field rule ''reactionName'' = get configRule ''reactionName'' \<and>
           get_field rule ''channelNames'' = get configRule ''channelNames''"
proof -
  have "''__proto__'' \<notin> set (enumerable_keys configRule)"
    using assms(2) by (simp add: enumerable_keys_own)
  from Rule_loop_plain[OF assms(1) this, of "\<lparr> own = [], proto = Rule_prototype \<rparr>"]
  obtain rule where made: "Rule configRule = Inr rule"
    and proto: "proto rule = Rule_prototype"
    and own: "\<forall>q. map_of (own rule) q =
        (if q \<in> set (enumerable_keys configRule) \<and> hasOwnProperty configRule q
         then map_of configRule q else None)"
    by (auto simp: Rule_def)
  have same: "map_of (own rule) q = map_of configRule q" for q
    using own by (simp add: enumerable_keys_own map_of_not_own)
  then have "map_of (own rule) = map_of configRule" by (rule ext)
  moreover have "hasOwnProperty (own rule) p = hasOwnProperty configRule p" for p
    using same[of p] by (simp add: hasOwnProperty_map_of)
  moreover have "get_field rule p = get configRule p" for p
    using same[of p] proto by (simp add: get_field_def get_def split: option.splits)
  ultimately show ?thesis using made proto by blast
qed

theorem Rule_copies_fields_witness:
  "Rule config_general = Inr rule_general \<and>
   get_field rule_general ''channelNames'' = Arr [Str ''general''] \<and>
   hasOwnProperty (own rule_general) ''githubRepository'' \<and>
   \<not> hasOwnProperty (own rule_general) ''match''"
proof -
  have "\<not> hasOwnProperty config_general ''hasOwnProperty''"
    and "\<not> hasOwnProperty config_general ''__proto__''"
    by (simp_all add: config_general_def hasOwnProperty_def)
  from Rule_copies_fields[OF this] obtain rule where "Rule config_general = Inr rule"
    by blast
  moreover have "Rule config_general = Inr rule_general"
    by (simp add: example_defs Rule_def call_hasOwnProperty_def assign_def)
  ultimately show ?thesis
    by (simp add: example_defs)
qed

text \<open>
  A configuration with a key \<^verbatim>\<open>hasOwnProperty\<close>: the constructor throws. Configurations
  with a key \<^verbatim>\<open>__proto__\<close>: the rule gets no such property; a value \<^verbatim>\<open>null\<close> takes the
  prototype, and with it the methods, from the rule, and a string is dropped.
\<close>

theorem Rule_copies_fields_counterexample:
  "Rule [(''reactionName'', Str REACTION), (''hasOwnProperty'', Bool True)] = Inl TypeError \<and>
   Rule [(''reactionName'', Str REACTION), (''__proto__'', Null)]
     = Inr \<lparr> own = [(''reactionName'', Str REACTION)], proto = Other_prototype Null \<rparr> \<and>
   Rule [(''reactionName'', Str REACTION), (''__proto__'', Str ''none'')]
     = Inr \<lparr> own = [(''reactionName'', Str REACTION)], proto = Rule_prototype \<rparr>"
  by (simp add: Rule_def call_hasOwnProperty_def assign_def hasOwnProperty_def get_def)

text \<open>
  Claim C10, as amended. For every rule whose \<^verbatim>\<open>channelNames\<close> is unset and every
  message, \<^verbatim>\<open>channelMatches\<close> returns true whatever the resolver is, one that throws on
  every call included, so the resolver is not invoked. \<^verbatim>\<open>match\<close> reaches
  \<^verbatim>\<open>reactionMatches\<close> and \<^verbatim>\<open>channelMatches\<close> by method calls, which throw where a field
  of the rule hides the method or the rule has lost \<^verbatim>\<open>Rule.prototype\<close>. Where the rule
  has both methods of \<^verbatim>\<open>Rule.prototype\<close>, \<^verbatim>\<open>match\<close> is \<^verbatim>\<open>reactionMatches\<close>: it
  is decided by the reaction name alone and succeeds when the reaction is the rule's,
  also when the resolver would fail or the message has no \<^verbatim>\<open>item.channel\<close>.
\<close>

theorem channelMatches_unset:
  assumes "get_field this ''channelNames'' = Undefined"
  shows "channelMatches this message client = Inr True \<and>
         (has_method this ''reactionMatches'' \<and> has_method this ''channelMatches'' \<longrightarrow>
            match this message client = reactionMatches this message \<and>
            (getprop message ''reaction'' = Inr reaction \<and>
             strict_eq reaction (get_field this ''reactionName'') \<longrightarrow>
               match this message client = Inr True))"
  using assms
  by (auto simp: channelMatches_def match_def call_method_def reactionMatches_def
      split: sum.splits bool.splits)

theorem channelMatches_unset_witness:
  "channelMatches rule_any itemlessMessage client_failing = Inr True \<and>
   match rule_any itemlessMessage client_failing = Inr True \<and>
   match rule_any bareMessage client_failing = Inr True"
proof -
  have unset: "get_field rule_any ''channelNames'' = Undefined"
    by (simp add: example_defs)
  have methods: "has_method rule_any ''reactionMatches'' \<and>
      has_method rule_any ''channelMatches''"
    by (simp add: example_defs)
  have itemless: "getprop itemlessMessage ''reaction'' = Inr (Str REACTION) \<and>
      strict_eq (Str REACTION) (get_field rule_any ''reactionName'')"
    by (simp add: example_defs itemlessMessage_def)
  have bare: "getprop bareMessage ''reaction'' = Inr (Str REACTION) \<and>
      strict_eq (Str REACTION) (get_field rule_any ''reactionName'')"
    by (simp add: example_defs bareMessage_def)
  from channelMatches_unset [OF unset, of itemlessMessage client_failing "Str REACTION"]
    channelMatches_unset [OF unset, of bareMessage client_failing "Str REACTION"]
    methods itemless bare
  show ?thesis by blast
qed

text \<open>
  Rules with \<^verbatim>\<open>channelNames\<close> unset and a field \<^verbatim>\<open>channelMatches\<close>, a field
  \<^verbatim>\<open>reactionMatches\<close>, or no prototype: the reaction is the rule's, and \<^verbatim>\<open>match\<close>
  throws.
\<close>

theorem channelMatches_unset_counterexample:
  "get_field rule_field_channelMatches ''channelNames'' = Undefined \<and>
   reactionMatches rule_field_channelMatches reactionAddedMessage = Inr True \<and>
   match rule_field_channelMatches reactionAddedMessage client_random = Inl TypeError \<and>
   get_field rule_field_reactionMatches ''channelNames'' = Undefined \<and>
   reactionMatches rule_field_reactionMatches reactionAddedMessage = Inr True \<and>
   match rule_field_reactionMatches reactionAddedMessage client_random = Inl TypeError \<and>
   get_field rule_null_prototype ''channelNames'' = Undefined \<and>
   reactionMatches rule_null_prototype reactionAddedMessage = Inr True \<and>
   match rule_null_prototype reactionAddedMessage client_random = Inl TypeError"
  by (simp add: example_defs program_defs rule_field_reactionMatches_def
      rule_field_channelMatches_def rule_null_prototype_def)

text \<open>
  Claim C4, as amended. An event that no rule matches is not handled, whatever the
  reactions of its message are. For every event whose message's current reactions, as
  \<^verbatim>\<open>getReactions\<close> reports them, already include the configured success reaction,
  \<^verbatim>\<open>execute\<close> files no issue and adds no reaction; and when a rule matches the event, as
  it did when the event was processed before, \<^verbatim>\<open>execute\<close> signals handled after the one
  query of the reactions.
\<close>

theorem execute_already_processed:
  assumes "rawMessage context = Inr event"
    and "getprop event ''item'' = Inr item"
    and "getprop item ''channel'' = Inr channel"
    and "getprop item ''ts'' = Inr ts"
    and "getReactions ext channel ts = Inr reactions"
    and "successReaction this \<in> set reactions"
  shows "(\<forall>c \<in> set (snd (execute this ext context)).
            (\<forall>rule ev. c \<noteq> FileIssue rule ev) \<and>
            (\<forall>name ch t. c \<noteq> AddReaction name ch t)) \<and>
         (\<forall>rule. findMatchingRule this event = Inr (Some rule) \<longrightarrow>
            execute this ext context = (Inr True, [GetReactions channel ts]))"
  using assms
  by (auto simp: execute_def execute_event_def split: sum.splits option.splits)

theorem execute_already_processed_witness:
  "execute (middleware_of [rule_general, rule_any] client_random)
     (collaborators_of [''smiley'', ''heavy_check_mark''] True)
     (context_of reactionAddedMessage)
   = (Inr True, [GetReactions (Str CHANNEL_ID) (Str TIMESTAMP)])"
proof -
  have "findMatchingRule (middleware_of [rule_general, rule_any] client_random)
      reactionAddedMessage = Inr (Some rule_any)"
    by (simp add: example_defs program_defs)
  with execute_already_processed
    [of "context_of reactionAddedMessage" reactionAddedMessage
        "Obj [(''type'', Str ''message''), (''channel'', Str CHANNEL_ID), (''ts'', Str TIMESTAMP)]"
        "Str CHANNEL_ID" "Str TIMESTAMP"
        "collaborators_of [''smiley'', ''heavy_check_mark''] True"
        "[''smiley'', ''heavy_check_mark'']"
        "middleware_of [rule_general, rule_any] client_random"]
  show ?thesis
    by (simp add: example_defs context_of_def collaborators_of_def rawMessage_def)
qed

text \<open>
  A reaction to a file, on a message that carries the success reaction: no rule is looked
  for, and \<^verbatim>\<open>execute\<close> signals not handled.
\<close>

theorem execute_already_processed_counterexample:
  "getReactions (collaborators_of [''heavy_check_mark''] True) (Str CHANNEL_ID) (Str TIMESTAMP)
     = Inr [''heavy_check_mark''] \<and>
   successReaction (middleware_of [rule_any] client_random) = ''heavy_check_mark'' \<and>
   execute (middleware_of [rule_any] client_random)
     (collaborators_of [''heavy_check_mark''] True) (context_of fileReactionMessage)
   = (Inr False, [])"
  by (simp add: example_defs program_defs fileReactionMessage_def context_of_def
      collaborators_of_def rawMessage_def execute_def execute_event_def)

text \<open>
  Claim C7. For every event handled by \<^verbatim>\<open>execute\<close>, if a call to an external collaborator
  (get reactions, file issue, add reaction, post message) fails, that call is the last one
  \<^verbatim>\<open>execute\<close> makes, so none of the remaining steps is performed, and the result of
  \<^verbatim>\<open>execute\<close> is that very failure; no call is made twice, so nothing is retried.
\<close>

theorem execute_aborts_on_failure:
  "(\<forall>before c after e.
      snd (execute this ext context) = before @ c # after \<and> failure_of ext c = Some e \<longrightarrow>
      after = [] \<and> fst (execute this ext context) = Inl e) \<and>
   distinct (snd (execute this ext context))"
proof (cases "rawMessage context")
  case (Inl e)
  then show ?thesis by (simp add: execute_def)
next
  case (Inr event)
  then have eq: "execute this ext context = execute_event this ext event"
    by (simp add: execute_def)
  have "after = [] \<and> fst (execute_event this ext event) = Inl e"
    if "snd (execute_event this ext event) = before @ c # after"
      and "failure_of ext c = Some e" for before c after e
    using stops_at_failure_split[OF execute_event_stops that] .
  with eq execute_event_distinct[of this ext event] show ?thesis by auto
qed

theorem execute_aborts_on_failure_witness:
  "failure_of (collaborators_of [''smiley''] False) (FileIssue rule_any reactionAddedMessage)
     = Some (Thrown ''github: 500'') \<and>
   execute (middleware_of [rule_general, rule_any] client_random)
     (collaborators_of [''smiley''] False) (context_of reactionAddedMessage)
   = (Inl (Thrown ''github: 500''),
      [GetReactions (Str CHANNEL_ID) (Str TIMESTAMP), FileIssue rule_any reactionAddedMessage])"
proof -
  have run: "snd (execute (middleware_of [rule_general, rule_any] client_random)
     (collaborators_of [''smiley''] False) (context_of reactionAddedMessage))
     = [GetReactions (Str CHANNEL_ID) (Str TIMESTAMP)] @
       FileIssue rule_any reactionAddedMessage # []"
    by (simp add: example_defs program_defs context_of_def collaborators_of_def rawMessage_def
        execute_def execute_event_def)
  have fails: "failure_of (collaborators_of [''smiley''] False)
      (FileIssue rule_any reactionAddedMessage) = Some (Thrown ''github: 500'')"
    by (simp add: collaborators_of_def)
  from execute_aborts_on_failure
    [of "middleware_of [rule_general, rule_any] client_random"
        "collaborators_of [''smiley''] False" "context_of reactionAddedMessage"]
    run fails
  have "fst (execute (middleware_of [rule_general, rule_any] client_random)
     (collaborators_of [''smiley''] False) (context_of reactionAddedMessage))
     = Inl (Thrown ''github: 500'')"
    by blast
  with run fails show ?thesis by (simp add: prod_eq_iff)
qed

text \<open>
  Claim C9. No operation on a rule changes anything: from every store, each of
  \<^verbatim>\<open>Rule.reactionMatches\<close>, \<^verbatim>\<open>Rule.channelMatches\<close>, \<^verbatim>\<open>Rule.match\<close> and
  \<^verbatim>\<open>Middleware.findMatchingRule\<close> leaves the store it was started in, whether it returns
  or throws. The store holds every field of every rule and of the message, and the list of
  the rules that \<^verbatim>\<open>findMatchingRule\<close> reads, so all of them are the same before and
  after every invocation.
\<close>

theorem operations_preserve_store:
  "snd (reactionMatches_st this message s) = s \<and>
   snd (channelMatches_st this message client s) = s \<and>
   snd (match_st this message client s) = s \<and>
   snd (findMatchingRule_st client message s) = s \<and>
   objects (snd (findMatchingRule_st client message s)) = objects s \<and>
   rule_array (snd (findMatchingRule_st client message s)) = rule_array s"
  using preserves_reactionMatches[of this message]
    preserves_channelMatches[of this message client]
    preserves_match[of this message client]
    preserves_findMatchingRule[of client message]
  by (simp add: preserves_store_def)

theorem operations_preserve_store_witness:
  "new_Rule 2 config_any
     (example_store\<lparr> objects := (objects example_store)(2 := Undefined) \<rparr>)
     = (Inr (), example_store) \<and>
   findMatchingRule_st client_random 0 example_store = (Inr (Some 2), example_store) \<and>
   map_sum id (map_option (rule_at example_store))
     (fst (findMatchingRule_st client_random 0 example_store)) = Inr (Some rule_any) \<and>
   match_st 1 0 client_failing example_store
     = (Inl (Thrown ''not connected''), example_store)"
proof -
  have constructed:
    "new_Rule 2 config_any
       (example_store\<lparr> objects := (objects example_store)(2 := Undefined) \<rparr>)
     = (Inr (), example_store)"
    by (simp add: new_Rule_result) (simp add: example_store_def example_defs)
  have found: "fst (findMatchingRule_st client_random 0 example_store) = Inr (Some 2)"
    by (simp add: example_defs example_store_def findMatchingRule_st_def
        handled_message_st_def match_st_def
        reactionMatches_st_def channelMatches_st_def bind_js_def read_prop_def read_rules_def
        return_js_def throw_js_def lift_js_def)
  have rule: "map_sum id (map_option (rule_at example_store))
     (fst (findMatchingRule_st client_random 0 example_store)) = Inr (Some rule_any)"
    using findMatchingRule_st_result
      [of example_store client_random 0 "''heavy_check_mark''" "()"]
    by (simp add: example_defs example_store_def rule_at_def program_defs)
  have "match_st 1 0 client_failing example_store =
      (match rule_general reactionAddedMessage client_failing, example_store)"
    using match_st_result[of example_store 1 config_general 0 client_failing]
    by (simp add: example_store_def rule_at_def rule_general_def has_method_def
        hasOwnProperty_def config_general_def)
  then have thrown: "fst (match_st 1 0 client_failing example_store)
      = Inl (Thrown ''not connected'')"
    by (simp add: example_defs program_defs)
  from operations_preserve_store[of 1 0 example_store client_failing]
    operations_preserve_store[of 1 0 example_store client_random]
    constructed found rule thrown
  show ?thesis by (simp add: prod_eq_iff)
qed

end
